(* ===== verification/Prelude.thy ===== *)
theory Prelude
  imports Main "HOL-Library.Sublist"
begin

text \<open>
  Shared vocabulary of the development: the JavaScript values and faults that cross
  component boundaries, the collections of facts the component proofs are run with,
  and generic lemmas on lists and options that more than one component needs.

  \<^item> \<open>js_value\<close> is the fragment of JavaScript values the program passes around:
    \<open>null\<close> and strings. \<open>FormData.get\<close> returns one of the two for a text control,
    and the console receives them as arguments.
  \<^item> \<open>js_error\<close> is the one fault the program can run into: a \<open>TypeError\<close> when a
    property of \<open>null\<close> is read or a constructor is given an object of the wrong
    kind. The program catches nothing, so a fault ends the running handler.
  \<^item> \<open>ref\<close> is the identity of a DOM element; two bindings that hold the same \<open>ref\<close>
    alias the same element.
  \<^item> \<open>last_Some\<close> is ``the last value written'': the specification of an output that
    several completions write one after the other.
\<close>

section \<open>Fact collections\<close>

named_theorems js_defs "definitions of the modelled operations, for unfolding"
named_theorems frame "what an operation leaves unchanged"
named_theorems inv_intros "preservation of invariants, one fact per operation"

section \<open>Values, faults and references\<close>

type_synonym ref = nat

datatype js_value = JNull | JStr string

datatype js_error = TypeError

text \<open>A handler either returns the state it leaves or stops with a fault.\<close>

type_synonym 's completion = "js_error + 's"

abbreviation returns :: "'s \<Rightarrow> 's completion" where
  "returns s \<equiv> Inr s"

abbreviation throws :: "js_error \<Rightarrow> 's completion" where
  "throws e \<equiv> Inl e"

section \<open>The last value written\<close>

fun last_Some :: "'a option list \<Rightarrow> 'a option" where
  "last_Some [] = None"
| "last_Some (x # xs) = (case last_Some xs of None \<Rightarrow> x | Some y \<Rightarrow> Some y)"

lemma last_Some_append [simp]:
  "last_Some (xs @ ys) = (case last_Some ys of None \<Rightarrow> last_Some xs | Some y \<Rightarrow> Some y)"
  by (induction xs) (auto split: option.splits)

lemma last_Some_snoc_Some [simp]: "last_Some (xs @ [Some y]) = Some y"
  by simp

lemma last_Some_snoc_None [simp]: "last_Some (xs @ [None]) = last_Some xs"
  by simp

lemma last_Some_None_iff: "last_Some xs = None \<longleftrightarrow> (\<forall>x \<in> set xs. x = None)"
  by (induction xs) (auto split: option.splits)

lemma last_Some_in_set: "last_Some xs = Some y \<Longrightarrow> Some y \<in> set xs"
  by (induction xs arbitrary: y) (auto split: option.splits)

lemma last_Some_replicate_None [simp]: "last_Some (replicate n None) = None"
  by (simp add: last_Some_None_iff)

section \<open>Association lists read front to back\<close>

lemma map_of_first_wins: "map_of ((k, v) # ps @ [(k, v')]) k = Some v"
  by simp

lemma map_of_absent: "k \<notin> fst ` set ps \<Longrightarrow> map_of ps k = None"
  by (simp add: map_of_eq_None_iff)

lemma map_of_append_absent: "k \<notin> fst ` set ps \<Longrightarrow> map_of (ps @ qs) k = map_of qs k"
  by (simp add: map_add_def map_of_absent)

lemma find_append:
  "find P (xs @ ys) = (case find P xs of None \<Rightarrow> find P ys | Some x \<Rightarrow> Some x)"
  by (induction xs) auto

lemma find_snoc_fresh:
  "find P xs = None \<Longrightarrow> find P (xs @ [y]) = (if P y then Some y else None)"
  by (simp add: find_append)

lemma filter_neq_removeAll: "filter (\<lambda>j. j \<noteq> i) xs = removeAll i xs"
  by (induction xs) auto

lemma length_removeAll_distinct:
  "distinct xs \<Longrightarrow> i \<in> set xs \<Longrightarrow> Suc (length (removeAll i xs)) = length xs"
  by (simp add: distinct_remove1_removeAll [symmetric] length_remove1)
    (metis Suc_pred length_pos_if_in_set)

text \<open>Reading a list up to a separator.\<close>

lemma takeWhile_until: "c \<notin> set xs \<Longrightarrow> takeWhile (\<lambda>x. x \<noteq> c) (xs @ c # ys) = xs"
  by (induction xs) auto

lemma dropWhile_until: "c \<notin> set xs \<Longrightarrow> dropWhile (\<lambda>x. x \<noteq> c) (xs @ c # ys) = c # ys"
  by (induction xs) auto

section \<open>Lists that only grow\<close>

lemma prefix_snoc_self [simp, intro]: "prefix xs (xs @ [x])"
  by simp

lemma prefix_length_eq: "prefix xs ys \<Longrightarrow> length xs = length ys \<Longrightarrow> xs = ys"
  by (auto simp: prefix_def)

lemma sublist_mid2 [simp, intro]: "sublist xs (ps @ qs @ xs @ ss)"
  using sublist_appendI [of xs "ps @ qs" ss] by simp

lemma sublist_mid3 [simp, intro]: "sublist xs (ps @ qs @ rs @ xs @ ss)"
  using sublist_appendI [of xs "ps @ qs @ rs" ss] by simp

section \<open>Sums as completions\<close>

lemma completion_cases [case_names Throws Returns]:
  "(\<And>e. c = throws e \<Longrightarrow> P) \<Longrightarrow> (\<And>s. c = returns s \<Longrightarrow> P) \<Longrightarrow> P"
  by (cases c) auto

lemma js_error_eq: "(e :: js_error) = TypeError"
  by (cases e) simp

text \<open>There is one fault, so a list of faults is determined by its length.\<close>

lemma js_errors_eqI: "length xs = length ys \<Longrightarrow> (xs :: js_error list) = ys"
proof (induction xs ys rule: list_induct2)
  case Nil
  show ?case by simp
next
  case (Cons x xs y ys)
  have "x = y" by (cases x, cases y) simp
  with Cons show ?case by simp
qed

end
