(* ===== verification/Dom.thy ===== *)
theory Dom
  imports Prelude
begin

text \<open>
  The part of the browser that \<^verbatim>\<open>src/downstream/index.js\<close> touches, as explicit state.
  None of it is code of the repository: it is the DOM surface the specification lists
  as consumed (an element \<open>form\<close> that dispatches \<open>submit\<close> and can be read into form
  data, an element \<open>response\<close> whose inner content can be replaced) and the console.

  \<^item> An \<open>element\<close> holds its \<open>innerHTML\<close>, its submit-time entry list (\<open>Some\<close> for a form:
    the name/value pairs of its successful controls in tree order; \<open>None\<close> for any
    other element) and its event listeners in registration order. The type of
    listeners is a parameter: the DOM does not know what a listener does.
  \<^item> A \<open>page\<close> is the document (identifier to element), the heap of elements, the
    console, whether the browser has navigated away, and the faults nobody caught.
  \<^item> An \<open>event\<close> carries its type and the \<open>defaultPrevented\<close> flag.

  Every operation is a total function on this state. Where the browser throws, the
  operation returns \<open>throws TypeError\<close>. The lemmas say what each operation reads
  back, what it leaves unchanged, which operations commute, and that \<open>FormData.get\<close>
  looks at the entries of the name it is given and at no other.
\<close>

section \<open>State\<close>

record 'l element =
  innerHTML :: string
  entry_list :: "(string \<times> string) list option"
  listeners :: "(string \<times> 'l) list"

record 'l page =
  ids :: "string \<rightharpoonup> ref"
  heap :: "ref \<Rightarrow> 'l element"
  console :: "js_value list list"
  navigated :: bool
  uncaught :: "js_error list"

record event =
  event_type :: string
  defaultPrevented :: bool

section \<open>Operations\<close>

definition getElementById :: "'l page \<Rightarrow> string \<Rightarrow> ref option" where
  "getElementById p i = ids p i"

definition addEventListener :: "ref \<Rightarrow> string \<Rightarrow> 'l \<Rightarrow> 'l page \<Rightarrow> 'l page" where
  "addEventListener r ty l p =
     p\<lparr>heap := (heap p)(r := (heap p r)\<lparr>listeners := listeners (heap p r) @ [(ty, l)]\<rparr>)\<rparr>"

definition preventDefault :: "event \<Rightarrow> event" where
  "preventDefault ev = ev\<lparr>defaultPrevented := True\<rparr>"

definition new_FormData :: "'l page \<Rightarrow> ref \<Rightarrow> (string \<times> string) list completion" where
  "new_FormData p r = (case entry_list (heap p r) of
       None \<Rightarrow> throws TypeError
     | Some es \<Rightarrow> returns es)"

definition FormData_get :: "(string \<times> string) list \<Rightarrow> string \<Rightarrow> js_value" where
  "FormData_get es name = (case map_of es name of None \<Rightarrow> JNull | Some v \<Rightarrow> JStr v)"

definition set_innerHTML :: "ref \<Rightarrow> string \<Rightarrow> 'l page \<Rightarrow> 'l page" where
  "set_innerHTML r s p = p\<lparr>heap := (heap p)(r := (heap p r)\<lparr>innerHTML := s\<rparr>)\<rparr>"

definition console_log :: "js_value list \<Rightarrow> 'l page \<Rightarrow> 'l page" where
  "console_log args p = p\<lparr>console := console p @ [args]\<rparr>"

definition set_entry_list :: "ref \<Rightarrow> (string \<times> string) list \<Rightarrow> 'l page \<Rightarrow> 'l page" where
  "set_entry_list r es p =
     (case entry_list (heap p r) of
        None \<Rightarrow> p
      | Some _ \<Rightarrow> p\<lparr>heap := (heap p)(r := (heap p r)\<lparr>entry_list := Some es\<rparr>)\<rparr>)"

definition navigate :: "'l page \<Rightarrow> 'l page" where
  "navigate p = p\<lparr>navigated := True\<rparr>"

definition report :: "js_error \<Rightarrow> 'l page \<Rightarrow> 'l page" where
  "report e p = p\<lparr>uncaught := uncaught p @ [e]\<rparr>"

definition listeners_for :: "string \<Rightarrow> 'l element \<Rightarrow> 'l list" where
  "listeners_for ty el = map snd (filter (\<lambda>tl. fst tl = ty) (listeners el))"

lemmas dom_defs [js_defs] =
  getElementById_def addEventListener_def preventDefault_def new_FormData_def
  FormData_get_def set_innerHTML_def console_log_def report_def listeners_for_def
  set_entry_list_def navigate_def

section \<open>What each operation reads back\<close>

lemma innerHTML_set_innerHTML [simp]:
  "innerHTML (heap (set_innerHTML r s p) r') = (if r' = r then s else innerHTML (heap p r'))"
  by (simp add: set_innerHTML_def)

lemma console_console_log [simp]: "console (console_log args p) = console p @ [args]"
  by (simp add: console_log_def)

lemma uncaught_report [simp]: "uncaught (report e p) = uncaught p @ [e]"
  by (simp add: report_def)

lemma defaultPrevented_preventDefault [simp]: "defaultPrevented (preventDefault ev)"
  by (simp add: preventDefault_def)

lemma event_type_preventDefault [simp]: "event_type (preventDefault ev) = event_type ev"
  by (simp add: preventDefault_def)

lemma preventDefault_idem [simp]: "preventDefault (preventDefault ev) = preventDefault ev"
  by (simp add: preventDefault_def)

lemma listeners_addEventListener [simp]:
  "listeners (heap (addEventListener r ty l p) r') =
     (if r' = r then listeners (heap p r) @ [(ty, l)] else listeners (heap p r'))"
  by (simp add: addEventListener_def)

lemma listeners_for_addEventListener:
  "listeners_for ty' (heap (addEventListener r ty l p) r) =
     listeners_for ty' (heap p r) @ (if ty' = ty then [l] else [])"
  by (simp add: listeners_for_def)

lemma new_FormData_form [simp]:
  "entry_list (heap p r) = Some es \<Longrightarrow> new_FormData p r = returns es"
  by (simp add: new_FormData_def)

lemma new_FormData_not_form [simp]:
  "entry_list (heap p r) = None \<Longrightarrow> new_FormData p r = throws TypeError"
  by (simp add: new_FormData_def)

lemma new_FormData_returns_iff:
  "new_FormData p r = returns es \<longleftrightarrow> entry_list (heap p r) = Some es"
  by (simp add: new_FormData_def split: option.splits)

text \<open>\<open>FormData.get\<close> answers with the first entry of that name, and with \<open>null\<close> when
  there is none.\<close>

lemma FormData_get_first [simp]: "FormData_get ((name, v) # es) name = JStr v"
  by (simp add: FormData_get_def)

lemma FormData_get_skip [simp]:
  "n \<noteq> name \<Longrightarrow> FormData_get ((n, v) # es) name = FormData_get es name"
  by (simp add: FormData_get_def)

lemma FormData_get_missing: "name \<notin> fst ` set es \<Longrightarrow> FormData_get es name = JNull"
  by (simp add: FormData_get_def map_of_absent)

lemma FormData_get_null_iff: "FormData_get es name = JNull \<longleftrightarrow> name \<notin> fst ` set es"
proof -
  have "FormData_get es name = JNull \<longleftrightarrow> map_of es name = None"
    by (simp add: FormData_get_def split: option.splits)
  then show ?thesis by (simp add: map_of_eq_None_iff)
qed

lemma FormData_get_Str_in: "FormData_get es name = JStr v \<Longrightarrow> (name, v) \<in> set es"
  by (auto simp: FormData_get_def split: option.splits dest: map_of_SomeD)

section \<open>What each operation leaves alone\<close>

lemma set_innerHTML_frame [simp, frame]:
  "ids (set_innerHTML r s p) = ids p"
  "console (set_innerHTML r s p) = console p"
  "navigated (set_innerHTML r s p) = navigated p"
  "uncaught (set_innerHTML r s p) = uncaught p"
  "entry_list (heap (set_innerHTML r s p) r') = entry_list (heap p r')"
  "listeners (heap (set_innerHTML r s p) r') = listeners (heap p r')"
  by (simp_all add: set_innerHTML_def)

lemma console_log_frame [simp, frame]:
  "ids (console_log args p) = ids p"
  "heap (console_log args p) = heap p"
  "navigated (console_log args p) = navigated p"
  "uncaught (console_log args p) = uncaught p"
  by (simp_all add: console_log_def)

lemma report_frame [simp, frame]:
  "ids (report e p) = ids p"
  "heap (report e p) = heap p"
  "navigated (report e p) = navigated p"
  "console (report e p) = console p"
  by (simp_all add: report_def)

lemma addEventListener_frame [simp, frame]:
  "ids (addEventListener r ty l p) = ids p"
  "console (addEventListener r ty l p) = console p"
  "navigated (addEventListener r ty l p) = navigated p"
  "uncaught (addEventListener r ty l p) = uncaught p"
  "innerHTML (heap (addEventListener r ty l p) r') = innerHTML (heap p r')"
  "entry_list (heap (addEventListener r ty l p) r') = entry_list (heap p r')"
  by (simp_all add: addEventListener_def)

lemma set_entry_list_frame [simp, frame]:
  "ids (set_entry_list r es p) = ids p"
  "console (set_entry_list r es p) = console p"
  "navigated (set_entry_list r es p) = navigated p"
  "uncaught (set_entry_list r es p) = uncaught p"
  "innerHTML (heap (set_entry_list r es p) r') = innerHTML (heap p r')"
  "listeners (heap (set_entry_list r es p) r') = listeners (heap p r')"
  by (simp_all add: set_entry_list_def split: option.splits)

lemma entry_list_set_entry_list:
  "entry_list (heap (set_entry_list r es p) r') =
     (if r' = r \<and> entry_list (heap p r) \<noteq> None then Some es else entry_list (heap p r'))"
  by (auto simp: set_entry_list_def split: option.splits)

lemma is_form_set_entry_list [simp]:
  "entry_list (heap (set_entry_list r es p) r') = None \<longleftrightarrow> entry_list (heap p r') = None"
  by (auto simp: entry_list_set_entry_list)

lemma navigate_frame [simp, frame]:
  "ids (navigate p) = ids p"
  "heap (navigate p) = heap p"
  "console (navigate p) = console p"
  "uncaught (navigate p) = uncaught p"
  "navigated (navigate p)"
  by (simp_all add: navigate_def)

lemma entry_list_frame [simp, frame]:
  "entry_list (heap (console_log args p) r') = entry_list (heap p r')"
  "entry_list (heap (report e p) r') = entry_list (heap p r')"
  by simp_all

lemma listeners_for_frame [simp, frame]:
  "listeners_for ty (heap (set_innerHTML r s p) r') = listeners_for ty (heap p r')"
  "listeners_for ty (heap (set_entry_list r es p) r') = listeners_for ty (heap p r')"
  by (simp_all add: listeners_for_def)

lemma getElementById_frame [simp, frame]:
  "getElementById (set_innerHTML r s p) i = getElementById p i"
  "getElementById (console_log args p) i = getElementById p i"
  "getElementById (report e p) i = getElementById p i"
  "getElementById (addEventListener r ty l p) i = getElementById p i"
  by (simp_all add: getElementById_def)

section \<open>Operations on different parts of the page commute\<close>

lemma set_entry_list_set_innerHTML_commute:
  "set_entry_list r es (set_innerHTML r' s p) = set_innerHTML r' s (set_entry_list r es p)"
  by (cases "entry_list (heap p r)")
    (auto simp: set_entry_list_def set_innerHTML_def fun_upd_twist intro!: page.equality)

lemma set_entry_list_console_log_commute:
  "set_entry_list r es (console_log args p) = console_log args (set_entry_list r es p)"
  by (cases "entry_list (heap p r)") (simp_all add: set_entry_list_def console_log_def)

lemma set_entry_list_report_commute:
  "set_entry_list r es (report e p) = report e (set_entry_list r es p)"
  by (cases "entry_list (heap p r)") (simp_all add: set_entry_list_def report_def)

lemmas page_commute =
  set_entry_list_set_innerHTML_commute set_entry_list_console_log_commute
  set_entry_list_report_commute

section \<open>The entries of one name\<close>

text \<open>\<open>FormData.get\<close> looks at the entries of the name it is given and at no other.\<close>

lemma FormData_get_filter:
  "FormData_get (filter (\<lambda>kv. fst kv = name) es) name = FormData_get es name"
  by (induction es) (auto simp: FormData_get_def)

end
