(* ===== verification/Echo_Pb.thy ===== *)
theory Echo_Pb
  imports Prelude
begin

text \<open>
  The two value objects of the generated module \<^verbatim>\<open>./proto/echo_pb.js\<close>, which
  \<^verbatim>\<open>index.js\<close> requires and which is not part of the sources. They are modelled from
  the specification's data model: a request is a mutable object with one attribute
  \<open>message\<close>, set before submission; a response is an object with one attribute
  \<open>message\<close>, read after a successful call.

  The request keeps whatever value \<open>setMessage\<close> is given (a string, or \<open>null\<close> when the
  form has no such field): the specification says the value is passed through
  unchanged and not validated. The response's message is a string.
\<close>

record echo_request =
  req_message :: js_value

record echo_response =
  resp_message :: string

definition new_EchoRequest :: echo_request where
  "new_EchoRequest = \<lparr>req_message = JStr []\<rparr>"

definition setMessage :: "js_value \<Rightarrow> echo_request \<Rightarrow> echo_request" where
  "setMessage v rq = rq\<lparr>req_message := v\<rparr>"

definition getMessage :: "echo_response \<Rightarrow> string" where
  "getMessage rs = resp_message rs"

lemmas echo_pb_defs [js_defs] = new_EchoRequest_def setMessage_def getMessage_def

lemma req_message_setMessage [simp]: "req_message (setMessage v rq) = v"
  by (simp add: setMessage_def)

lemma setMessage_overwrites [simp]: "setMessage v (setMessage u rq) = setMessage v rq"
  by (simp add: setMessage_def)

lemma setMessage_determines [simp]: "setMessage v rq = setMessage v rq'"
  by (simp add: setMessage_def)

lemma setMessage_inj: "setMessage v rq = setMessage v' rq' \<longleftrightarrow> v = v'"
  by (cases rq, cases rq') (auto simp: setMessage_def)

lemma getMessage_response [simp]: "getMessage \<lparr>resp_message = m\<rparr> = m"
  by (simp add: getMessage_def)

end
