(* ===== verification/Echo_Client.thy ===== *)
theory Echo_Client
  imports Echo_Pb
begin

text \<open>
  The client of the generated module \<^verbatim>\<open>./proto/echo_grpc_web_pb.js\<close>: an opaque
  collaborator of which \<^verbatim>\<open>index.js\<close> uses the constructor and one method,
  \<open>echo(request, metadata, callback)\<close>. It is modelled from the specification: the call
  is dispatched at once and does not block, and the callback is invoked later, once,
  with an error or with a response.

  \<^item> \<open>sent\<close> is what has gone to the network, in order: one request per call of \<open>echo\<close>.
    It is never shortened, so it records that nothing is retried, deduplicated or
    queued.
  \<^item> \<open>in_flight\<close> holds the calls whose callback has not run yet. A call is named by its
    position in \<open>sent\<close>.
  \<^item> \<open>take_call\<close> is the transport resolving a call: it leaves \<open>in_flight\<close>, and its
    callback receives \<open>callback_args\<close> of the outcome.

  The type of callbacks is a parameter \<open>'cb\<close>: the client stores a callback and hands it
  back, and never looks into it. The wire format and the transport are not modelled;
  an outcome is an input of the model.
\<close>

section \<open>State\<close>

record rpc_error =
  err_code :: int
  err_message :: string

datatype rpc_outcome = Failed rpc_error | Succeeded echo_response

record 'cb pending_call =
  call_id :: nat
  call_request :: echo_request
  call_metadata :: "(string \<times> string) list"
  call_callback :: 'cb

record 'cb echo_client =
  hostname :: string
  credentials :: js_value
  options :: js_value
  sent :: "echo_request list"
  in_flight :: "'cb pending_call list"

section \<open>Operations\<close>

definition new_EchoServiceClient :: "string \<Rightarrow> js_value \<Rightarrow> js_value \<Rightarrow> 'cb echo_client" where
  "new_EchoServiceClient host creds opts =
     \<lparr>hostname = host, credentials = creds, options = opts, sent = [], in_flight = []\<rparr>"

definition echo ::
  "echo_request \<Rightarrow> (string \<times> string) list \<Rightarrow> 'cb \<Rightarrow> 'cb echo_client \<Rightarrow> 'cb echo_client" where
  "echo rq md cb c =
     c\<lparr>sent := sent c @ [rq],
       in_flight := in_flight c @
         [\<lparr>call_id = length (sent c), call_request = rq, call_metadata = md, call_callback = cb\<rparr>]\<rparr>"

definition take_call :: "nat \<Rightarrow> 'cb echo_client \<Rightarrow> ('cb pending_call \<times> 'cb echo_client) option" where
  "take_call i c = (case find (\<lambda>p. call_id p = i) (in_flight c) of
       None \<Rightarrow> None
     | Some p \<Rightarrow> Some (p, c\<lparr>in_flight := filter (\<lambda>q. call_id q \<noteq> i) (in_flight c)\<rparr>))"

fun callback_args :: "rpc_outcome \<Rightarrow> rpc_error option \<times> echo_response option" where
  "callback_args (Failed e) = (Some e, None)"
| "callback_args (Succeeded r) = (None, Some r)"

definition pending_ids :: "'cb echo_client \<Rightarrow> nat list" where
  "pending_ids c = map call_id (in_flight c)"

lemmas echo_client_defs [js_defs] =
  new_EchoServiceClient_def echo_def take_call_def pending_ids_def

section \<open>The client's invariant\<close>

text \<open>Calls in flight have distinct names, each names a request that was sent, and
  carries that request.\<close>

definition client_ok :: "'cb echo_client \<Rightarrow> bool" where
  "client_ok c \<longleftrightarrow>
     distinct (pending_ids c) \<and>
     list_all (\<lambda>p. call_id p < length (sent c) \<and> call_request p = sent c ! call_id p) (in_flight c)"

lemma client_ok_new [simp, inv_intros]: "client_ok (new_EchoServiceClient host creds opts)"
  by (simp add: client_ok_def js_defs)

lemma client_ok_call_bound:
  "client_ok c \<Longrightarrow> p \<in> set (in_flight c) \<Longrightarrow> call_id p < length (sent c)"
  by (simp add: client_ok_def list_all_iff)

lemma client_ok_id_bound:
  "client_ok c \<Longrightarrow> i \<in> set (pending_ids c) \<Longrightarrow> i < length (sent c)"
  by (auto simp: pending_ids_def dest: client_ok_call_bound)

lemma client_ok_fresh:
  "client_ok c \<Longrightarrow> p \<in> set (in_flight c) \<Longrightarrow> call_id p \<noteq> length (sent c)"
  by (auto dest: client_ok_call_bound)

lemma client_ok_echo [inv_intros]:
  assumes "client_ok c"
  shows "client_ok (echo rq md cb c)"
proof -
  have fresh: "length (sent c) \<notin> set (pending_ids c)"
    using client_ok_id_bound [OF assms] by blast
  have "list_all (\<lambda>p. call_id p < Suc (length (sent c)) \<and>
          call_request p = (sent c @ [rq]) ! call_id p) (in_flight c)"
    using assms by (auto simp: client_ok_def list_all_iff nth_append)
  with assms fresh show ?thesis
    by (simp add: client_ok_def echo_def pending_ids_def)
qed

lemma client_ok_take_call [inv_intros]:
  assumes "client_ok c" and "take_call i c = Some (p, c')"
  shows "client_ok c'"
proof -
  from assms(2) have c': "c' = c\<lparr>in_flight := filter (\<lambda>q. call_id q \<noteq> i) (in_flight c)\<rparr>"
    by (auto simp: take_call_def split: option.splits)
  from assms(1) show ?thesis
    by (auto simp: c' client_ok_def pending_ids_def list_all_iff distinct_map_filter)
qed

section \<open>What the operations do\<close>

lemma sent_echo [simp]: "sent (echo rq md cb c) = sent c @ [rq]"
  by (simp add: echo_def)

lemma pending_ids_echo [simp]: "pending_ids (echo rq md cb c) = pending_ids c @ [length (sent c)]"
  by (simp add: echo_def pending_ids_def)

lemma pending_ids_new [simp]: "pending_ids (new_EchoServiceClient host creds opts) = []"
  by (simp add: js_defs)

lemma new_EchoServiceClient_fields [simp]:
  "hostname (new_EchoServiceClient host creds opts) = host"
  "credentials (new_EchoServiceClient host creds opts) = creds"
  "options (new_EchoServiceClient host creds opts) = opts"
  "sent (new_EchoServiceClient host creds opts) = []"
  "in_flight (new_EchoServiceClient host creds opts) = []"
  by (simp_all add: new_EchoServiceClient_def)

lemma echo_frame [simp, frame]:
  "hostname (echo rq md cb c) = hostname c"
  "credentials (echo rq md cb c) = credentials c"
  "options (echo rq md cb c) = options c"
  by (simp_all add: echo_def)

lemma take_call_None_iff: "take_call i c = None \<longleftrightarrow> i \<notin> set (pending_ids c)"
proof -
  have "take_call i c = None \<longleftrightarrow> find (\<lambda>p. call_id p = i) (in_flight c) = None"
    by (simp add: take_call_def split: option.splits)
  also have "\<dots> \<longleftrightarrow> i \<notin> set (pending_ids c)"
    by (auto simp: find_None_iff pending_ids_def)
  finally show ?thesis .
qed

lemma take_call_SomeD:
  assumes "take_call i c = Some (p, c')"
  shows "p \<in> set (in_flight c)" and "call_id p = i"
    and "sent c' = sent c" and "hostname c' = hostname c"
    and "pending_ids c' = filter (\<lambda>j. j \<noteq> i) (pending_ids c)"
  using assms
  by (auto simp: take_call_def pending_ids_def filter_map comp_def find_Some_iff
      split: option.splits)

lemma take_call_rest:
  "take_call i c = Some (p, c') \<Longrightarrow>
     c' = c\<lparr>in_flight := filter (\<lambda>q. call_id q \<noteq> i) (in_flight c)\<rparr>"
  by (auto simp: take_call_def split: option.splits)

lemma take_call_removes:
  "take_call i c = Some (p, c') \<Longrightarrow> take_call i c' = None"
  by (simp add: take_call_None_iff take_call_SomeD(5))

lemma take_call_request:
  assumes "client_ok c" and "take_call i c = Some (p, c')"
  shows "call_request p = sent c ! i"
  using assms take_call_SomeD(1,2) [OF assms(2)]
  by (auto simp: client_ok_def list_all_iff)

text \<open>The call just issued can be resolved, and resolving it hands back the request
  and the callback it was issued with.\<close>

lemma take_call_echo_new:
  assumes "client_ok c"
  shows "take_call (length (sent c)) (echo rq md cb c) =
     Some (\<lparr>call_id = length (sent c), call_request = rq, call_metadata = md, call_callback = cb\<rparr>,
           (echo rq md cb c)\<lparr>in_flight := in_flight c\<rparr>)"
proof -
  have fresh: "\<forall>p \<in> set (in_flight c). call_id p \<noteq> length (sent c)"
    using client_ok_fresh [OF assms] by blast
  then have "find (\<lambda>p. call_id p = length (sent c)) (in_flight c) = None"
    by (simp add: find_None_iff)
  moreover from fresh have "filter (\<lambda>q. call_id q \<noteq> length (sent c)) (in_flight c) = in_flight c"
    by (simp add: filter_id_conv)
  ultimately show ?thesis
    by (simp add: take_call_def echo_def find_append)
qed

text \<open>A callback receives an error or a response, never both and never neither.\<close>

lemma callback_args_exclusive:
  "callback_args out = (err, resp) \<Longrightarrow> (err = None) \<noteq> (resp = None)"
  by (cases out) auto

end
