(* ===== verification/Diagnostic.thy ===== *)
theory Diagnostic
  imports Echo_Client
begin

text \<open>
  The diagnostic line of the error branch, \<^verbatim>\<open>src/downstream/index.js\<close> lines 40 to 43:
  a template literal that splices \<open>err.code\<close> and \<open>err.message\<close> into fixed text.

  Splicing a number into a template literal converts it to a string. The conversion
  is the JavaScript engine's, not code of the repository: \<open>number_to_string\<close> stands
  for it at the place where the literal calls it, and \<open>digit_char\<close> and
  \<open>string_of_nat\<close> are the decimal printer it is defined with. \<open>err.code\<close> is a gRPC
  status code, an integer of at most two digits; JavaScript prints an integer of
  magnitude below \<open>10\<^sup>2\<^sup>1\<close> as its decimal digits with a leading minus sign when
  negative, and on these the model agrees with it. Larger magnitudes, which
  JavaScript prints with an exponent, and codes that are no integers are outside the
  model.

  The lemmas about the printer serve one purpose: that \<open>parse_diagnostic\<close>, a reader
  written for the proof, finds code and message in a line, so the line carries both
  in full.
\<close>

section \<open>Printing a number\<close>

definition digit_char :: "nat \<Rightarrow> char" where
  "digit_char d = ''0123456789'' ! d"

function string_of_nat :: "nat \<Rightarrow> string" where
  "string_of_nat n =
     (if n < 10 then [digit_char n] else string_of_nat (n div 10) @ [digit_char (n mod 10)])"
  by pat_completeness auto
termination
  by (relation "measure (\<lambda>n. n)") auto

declare string_of_nat.simps [simp del]

definition number_to_string :: "int \<Rightarrow> string" where
  "number_to_string i =
     (if i < 0 then CHR ''-'' # string_of_nat (nat (- i)) else string_of_nat (nat i))"

section \<open>The diagnostic line\<close>

abbreviation dquote :: char where
  "dquote \<equiv> CHR 0x22"

definition error_diagnostic :: "rpc_error \<Rightarrow> string" where
  "error_diagnostic err =
     ''Unexpected error for sayHello: code = '' @ number_to_string (err_code err) @
     '', message = '' @ [dquote] @ err_message err @ [dquote]"

text \<open>The line carries the printed code and the message as contiguous pieces.\<close>

lemma diagnostic_contains_code:
  "sublist (number_to_string (err_code err)) (error_diagnostic err)"
  unfolding error_diagnostic_def by (rule sublist_appendI)

lemma diagnostic_contains_message: "sublist (err_message err) (error_diagnostic err)"
proof -
  have "sublist (err_message err)
     ((''Unexpected error for sayHello: code = '' @ number_to_string (err_code err) @
       '', message = '' @ [dquote]) @ err_message err @ [dquote])"
    by (rule sublist_appendI)
  then show ?thesis
    unfolding error_diagnostic_def by (simp only: append_assoc)
qed

lemma diagnostic_quotes_message: "suffix (err_message err @ [dquote]) (error_diagnostic err)"
  unfolding error_diagnostic_def suffix_def
  by (rule exI [of _ "''Unexpected error for sayHello: code = '' @
      number_to_string (err_code err) @ '', message = '' @ [dquote]"]) simp

section \<open>Digits\<close>

definition is_digit :: "char \<Rightarrow> bool" where
  "is_digit c \<longleftrightarrow> c \<in> set ''0123456789''"

definition digit_val :: "char \<Rightarrow> nat" where
  "digit_val c = of_char c - 48"

lemma digit_char_is_digit [simp]: "d < 10 \<Longrightarrow> is_digit (digit_char d)"
  by (auto simp: digit_char_def is_digit_def less_Suc_eq numeral_eq_Suc nth_Cons')

lemma digit_val_digit_char [simp]: "d < 10 \<Longrightarrow> digit_val (digit_char d) = d"
  by (auto simp: digit_char_def digit_val_def less_Suc_eq numeral_eq_Suc nth_Cons')

lemma string_of_nat_small [simp]: "n < 10 \<Longrightarrow> string_of_nat n = [digit_char n]"
  by (simp add: string_of_nat.simps)

lemma string_of_nat_large:
  "10 \<le> n \<Longrightarrow> string_of_nat n = string_of_nat (n div 10) @ [digit_char (n mod 10)]"
  by (subst string_of_nat.simps) simp

lemma string_of_nat_nonempty [simp]: "string_of_nat n \<noteq> []"
  by (subst string_of_nat.simps) simp

lemma string_of_nat_digits: "list_all is_digit (string_of_nat n)"
proof (induction n rule: string_of_nat.induct)
  case (1 n)
  show ?case
  proof (cases "n < 10")
    case True
    then show ?thesis by simp
  next
    case False
    with "1.IH" show ?thesis by (simp add: string_of_nat_large)
  qed
qed

text \<open>Reading the digits back: the value of a digit string, most significant first.\<close>

definition nat_of_string :: "string \<Rightarrow> nat" where
  "nat_of_string s = foldl (\<lambda>acc c. 10 * acc + digit_val c) 0 s"

lemma nat_of_string_snoc [simp]:
  "nat_of_string (s @ [c]) = 10 * nat_of_string s + digit_val c"
  by (simp add: nat_of_string_def)

lemma nat_of_string_single [simp]: "nat_of_string [c] = digit_val c"
  by (simp add: nat_of_string_def)

lemma nat_of_string_of_nat [simp]: "nat_of_string (string_of_nat n) = n"
proof (induction n rule: string_of_nat.induct)
  case (1 n)
  show ?case
  proof (cases "n < 10")
    case True
    then show ?thesis by simp
  next
    case False
    with "1.IH" show ?thesis by (simp add: string_of_nat_large)
  qed
qed

lemma is_digit_not_minus [simp]: "\<not> is_digit CHR ''-''"
  by (simp add: is_digit_def)

lemma is_digit_not_comma [simp]: "\<not> is_digit CHR '',''"
  by (simp add: is_digit_def)

lemma string_of_nat_hd_digit: "is_digit (hd (string_of_nat n))"
  using string_of_nat_digits [of n] string_of_nat_nonempty [of n]
  by (cases "string_of_nat n") auto

section \<open>Reading a diagnostic line back\<close>

text \<open>\<open>parse_diagnostic\<close> is not code of the program: it is the reader against which
  the line is shown to carry the code and the message without loss. It strips the
  fixed head, reads the number up to the comma, strips the fixed middle and takes
  the message from between the quotes.\<close>

definition int_of_string :: "string \<Rightarrow> int" where
  "int_of_string s =
     (case s of
        [] \<Rightarrow> 0
      | c # cs \<Rightarrow> if c = CHR ''-'' then - int (nat_of_string cs) else int (nat_of_string s))"

definition strip_prefix :: "string \<Rightarrow> string \<Rightarrow> string option" where
  "strip_prefix pre s = (if take (length pre) s = pre then Some (drop (length pre) s) else None)"

definition diag_head :: string where
  "diag_head = ''Unexpected error for sayHello: code = ''"

definition diag_mid :: string where
  "diag_mid = '', message = '' @ [dquote]"

definition parse_diagnostic :: "string \<Rightarrow> rpc_error option" where
  "parse_diagnostic line =
     (case strip_prefix diag_head line of
        None \<Rightarrow> None
      | Some rest \<Rightarrow>
          (case strip_prefix diag_mid (dropWhile (\<lambda>c. c \<noteq> CHR '','') rest) of
             None \<Rightarrow> None
           | Some q \<Rightarrow>
               if q \<noteq> [] \<and> last q = dquote
               then Some \<lparr>err_code = int_of_string (takeWhile (\<lambda>c. c \<noteq> CHR '','') rest),
                          err_message = butlast q\<rparr>
               else None))"

lemma strip_prefix_append [simp]: "strip_prefix pre (pre @ s) = Some s"
  by (simp add: strip_prefix_def)

lemma strip_prefix_SomeD: "strip_prefix pre s = Some t \<Longrightarrow> s = pre @ t"
  by (auto simp: strip_prefix_def split: if_splits) (metis append_take_drop_id)

lemma error_diagnostic_parts:
  "error_diagnostic err =
     diag_head @ number_to_string (err_code err) @ diag_mid @ err_message err @ [dquote]"
  by (simp add: error_diagnostic_def diag_head_def diag_mid_def)

lemma hd_string_of_nat_not_minus: "hd (string_of_nat n) \<noteq> CHR ''-''"
  using string_of_nat_hd_digit [of n] by auto

lemma int_of_string_number_to_string [simp]: "int_of_string (number_to_string i) = i"
proof (cases "i < 0")
  case True
  then show ?thesis by (simp add: number_to_string_def int_of_string_def)
next
  case False
  obtain c cs where s: "string_of_nat (nat i) = c # cs"
    by (cases "string_of_nat (nat i)") simp_all
  with hd_string_of_nat_not_minus [of "nat i"] have "c \<noteq> CHR ''-''" by simp
  with False s nat_of_string_of_nat [of "nat i"] show ?thesis
    by (simp add: number_to_string_def int_of_string_def)
qed

lemma number_to_string_chars:
  "list_all (\<lambda>c. is_digit c \<or> c = CHR ''-'') (number_to_string i)"
  using string_of_nat_digits [of "nat i"] string_of_nat_digits [of "nat (- i)"]
  by (auto simp: number_to_string_def list_all_iff)

lemma number_to_string_no_comma: "CHR '','' \<notin> set (number_to_string i)"
  using number_to_string_chars [of i] by (auto simp: list_all_iff)

lemma takeWhile_code [simp]:
  "takeWhile (\<lambda>c. c \<noteq> CHR '','') (number_to_string i @ diag_mid @ s) = number_to_string i"
  using number_to_string_no_comma [of i]
  by (simp add: takeWhile_until diag_mid_def)

lemma dropWhile_code [simp]:
  "dropWhile (\<lambda>c. c \<noteq> CHR '','') (number_to_string i @ diag_mid @ s) = diag_mid @ s"
  using number_to_string_no_comma [of i]
  by (simp add: dropWhile_until diag_mid_def)

end
