(* ===== verification/Handler.thy ===== *)
theory Handler
  imports Dom Diagnostic
begin

text \<open>
  The program itself, \<^verbatim>\<open>src/downstream/index.js\<close>, statement by statement.

  \<^item> \<open>load_module\<close> is the top level (lines 19 to 31): it constructs the client for
    \<open>endpoint\<close>, looks the two elements up and registers the submit listener. Reading
    \<open>addEventListener\<close> of \<open>null\<close> throws, so a document without an element \<open>form\<close>
    ends the script with a \<open>TypeError\<close> and no listener; a document without an element
    \<open>response\<close> loads, with \<open>response\<close> bound to \<open>null\<close>.
  \<^item> \<open>bindings\<close> are the top-level variables \<open>client\<close>, \<open>form\<close> and \<open>response\<close> that
    the two functions close over. \<open>form\<close> is a reference: the listener exists only
    when line 31 found it not to be \<open>null\<close>.
  \<^item> \<open>showResponse\<close> is lines 27 to 29, \<open>submit_listener\<close> the function of lines 31 to
    49, \<open>echo_callback\<close> the arrow function of lines 38 to 48. The statements of the
    listener have names of their own: \<open>read_message\<close> (lines 33 and 34),
    \<open>log_sent\<close> (line 35), \<open>build_request\<close> (lines 36 and 37) and \<open>send_request\<close>
    (line 38); \<open>log_error\<close> is the error branch of the callback (lines 40 to 43).
  \<^item> The two functions are the only closures the program creates, and they capture
    top-level bindings only (inside the callback, \<open>message\<close> and \<open>response\<close> are its own
    parameter and local, which shadow the outer ones). So a closure is represented
    by a tag, \<open>SubmitListener\<close> or \<open>EchoCallback\<close>, and \<open>apply_listener\<close> and
    \<open>apply_callback\<close> run the code the tag stands for.

  A function returns the state it leaves or \<open>throws TypeError\<close>. The listener also
  returns the event, because \<open>preventDefault\<close> has run before anything can throw.
\<close>

section \<open>Closures and bindings\<close>

datatype listener = SubmitListener

datatype callback = EchoCallback

record bindings =
  client :: "callback echo_client"
  form :: ref
  response :: "ref option"

record world =
  page :: "listener page"
  env :: bindings

section \<open>The top level\<close>

definition endpoint :: string where
  "endpoint = ''http://localhost:50052''"

definition new_client :: "callback echo_client" where
  "new_client = new_EchoServiceClient endpoint JNull JNull"

definition load_module :: "listener page \<Rightarrow> world completion" where
  "load_module p =
     (let f = getElementById p ''form'';
          r = getElementById p ''response''
      in case f of
           None \<Rightarrow> throws TypeError
         | Some fr \<Rightarrow>
             returns \<lparr>page = addEventListener fr ''submit'' SubmitListener p,
                      env = \<lparr>client = new_client, form = fr, response = r\<rparr>\<rparr>)"

section \<open>Showing a response\<close>

definition showResponse :: "string \<Rightarrow> world \<Rightarrow> world completion" where
  "showResponse message w =
     (case response (env w) of
        None \<Rightarrow> throws TypeError
      | Some r \<Rightarrow> returns (w\<lparr>page := set_innerHTML r message (page w)\<rparr>))"

section \<open>The completion callback\<close>

definition log_error :: "rpc_error \<Rightarrow> world \<Rightarrow> world" where
  "log_error err w = w\<lparr>page := console_log [JStr (error_diagnostic err)] (page w)\<rparr>"

definition echo_callback ::
  "rpc_error option \<Rightarrow> echo_response option \<Rightarrow> world \<Rightarrow> world completion" where
  "echo_callback err resp w =
     (case err of
        Some e \<Rightarrow> returns (log_error e w)
      | None \<Rightarrow>
          (case resp of
             None \<Rightarrow> throws TypeError
           | Some r \<Rightarrow> showResponse (getMessage r) w))"

fun apply_callback ::
  "callback \<Rightarrow> rpc_error option \<Rightarrow> echo_response option \<Rightarrow> world \<Rightarrow> world completion" where
  "apply_callback EchoCallback err resp w = echo_callback err resp w"

section \<open>The submit listener\<close>

definition read_message :: "world \<Rightarrow> js_value completion" where
  "read_message w =
     (case new_FormData (page w) (form (env w)) of
        Inl e \<Rightarrow> throws e
      | Inr data \<Rightarrow> returns (FormData_get data ''message''))"

definition log_sent :: "js_value \<Rightarrow> world \<Rightarrow> world" where
  "log_sent message w =
     w\<lparr>page := console_log [JStr ''message send from browser'', message] (page w)\<rparr>"

definition build_request :: "js_value \<Rightarrow> echo_request" where
  "build_request message = setMessage message new_EchoRequest"

definition send_request :: "echo_request \<Rightarrow> world \<Rightarrow> world" where
  "send_request request w =
     w\<lparr>env := (env w)\<lparr>client := echo request [] EchoCallback (client (env w))\<rparr>\<rparr>"

definition submit_listener :: "event \<Rightarrow> world \<Rightarrow> event \<times> world completion" where
  "submit_listener ev w =
     (let ev' = preventDefault ev in
      case read_message w of
        Inl e \<Rightarrow> (ev', throws e)
      | Inr message \<Rightarrow>
          (ev', returns (send_request (build_request message) (log_sent message w))))"

fun apply_listener :: "listener \<Rightarrow> event \<Rightarrow> world \<Rightarrow> event \<times> world completion" where
  "apply_listener SubmitListener ev w = submit_listener ev w"

lemmas handler_defs [js_defs] =
  new_client_def load_module_def showResponse_def log_error_def echo_callback_def
  read_message_def log_sent_def build_request_def send_request_def submit_listener_def

section \<open>Observations\<close>

text \<open>What an observer of the page can see: the content of an element, the console,
  what went to the network, how many calls are unresolved.\<close>

definition content :: "world \<Rightarrow> ref \<Rightarrow> string" where
  "content w = (\<lambda>r. innerHTML (heap (page w) r))"

definition shown :: "world \<Rightarrow> string option" where
  "shown w = map_option (content w) (response (env w))"

definition requests :: "world \<Rightarrow> echo_request list" where
  "requests w = sent (client (env w))"

definition outstanding :: "world \<Rightarrow> nat list" where
  "outstanding w = pending_ids (client (env w))"

definition logged :: "world \<Rightarrow> js_value list list" where
  "logged w = console (page w)"

definition entries :: "world \<Rightarrow> (string \<times> string) list option" where
  "entries w = entry_list (heap (page w) (form (env w)))"

lemmas observation_defs =
  content_def shown_def requests_def outstanding_def logged_def entries_def

section \<open>Loading\<close>

lemma new_client_fields [simp]:
  "hostname new_client = endpoint" "credentials new_client = JNull"
  "options new_client = JNull" "sent new_client = []" "pending_ids new_client = []"
  "client_ok new_client"
  by (simp_all add: new_client_def)

lemma load_module_throws_iff: "load_module p = throws TypeError \<longleftrightarrow> ids p ''form'' = None"
  by (simp add: load_module_def getElementById_def split: option.splits)

lemma load_module_returns:
  assumes "ids p ''form'' = Some fr"
  shows "load_module p =
     returns \<lparr>page = addEventListener fr ''submit'' SubmitListener p,
              env = \<lparr>client = new_client, form = fr, response = ids p ''response''\<rparr>\<rparr>"
  using assms by (simp add: load_module_def getElementById_def)

lemma load_module_returnsD:
  assumes "load_module p = returns w"
  shows "ids p ''form'' = Some (form (env w))"
    and "response (env w) = ids p ''response''"
    and "client (env w) = new_client"
    and "page w = addEventListener (form (env w)) ''submit'' SubmitListener p"
  using assms by (auto simp: load_module_def getElementById_def split: option.splits)

lemma load_module_observations:
  assumes "load_module p = returns w"
  shows "requests w = []" and "outstanding w = []" and "logged w = console p"
    and "content w r = innerHTML (heap p r)"
    and "entries w = entry_list (heap p (form (env w)))"
    and "navigated (page w) = navigated p" and "uncaught (page w) = uncaught p"
    and "hostname (client (env w)) = endpoint"
  using load_module_returnsD [OF assms]
  by (simp_all add: observation_defs)

lemma load_module_listeners:
  assumes "load_module p = returns w"
  shows "listeners_for ''submit'' (heap (page w) (form (env w))) =
           listeners_for ''submit'' (heap p (form (env w))) @ [SubmitListener]"
  using load_module_returnsD(4) [OF assms]
  by (simp add: listeners_for_addEventListener)

section \<open>The statements of the listener\<close>

lemma read_message_form [simp]:
  "entries w = Some es \<Longrightarrow> read_message w = returns (FormData_get es ''message'')"
  by (simp add: read_message_def entries_def)

lemma read_message_not_form [simp]:
  "entries w = None \<Longrightarrow> read_message w = throws TypeError"
  by (simp add: read_message_def entries_def)

lemma req_message_build_request [simp]: "req_message (build_request m) = m"
  by (simp add: build_request_def)

lemma build_request_eq: "build_request m = \<lparr>req_message = m\<rparr>"
  by (simp add: build_request_def setMessage_def new_EchoRequest_def)

lemma build_request_inj [simp]: "build_request m = build_request m' \<longleftrightarrow> m = m'"
  by (simp add: build_request_eq)

lemma log_sent_observations [simp]:
  "logged (log_sent m w) = logged w @ [[JStr ''message send from browser'', m]]"
  "requests (log_sent m w) = requests w"
  "outstanding (log_sent m w) = outstanding w"
  "content (log_sent m w) = content w"
  "shown (log_sent m w) = shown w"
  "entries (log_sent m w) = entries w"
  "env (log_sent m w) = env w"
  "navigated (page (log_sent m w)) = navigated (page w)"
  "uncaught (page (log_sent m w)) = uncaught (page w)"
  by (simp_all add: log_sent_def observation_defs)

lemma send_request_observations [simp]:
  "requests (send_request rq w) = requests w @ [rq]"
  "outstanding (send_request rq w) = outstanding w @ [length (requests w)]"
  "logged (send_request rq w) = logged w"
  "content (send_request rq w) = content w"
  "shown (send_request rq w) = shown w"
  "entries (send_request rq w) = entries w"
  "page (send_request rq w) = page w"
  "form (env (send_request rq w)) = form (env w)"
  "response (env (send_request rq w)) = response (env w)"
  "hostname (client (env (send_request rq w))) = hostname (client (env w))"
  by (simp_all add: send_request_def observation_defs)

lemma client_ok_send_request [inv_intros]:
  "client_ok (client (env w)) \<Longrightarrow> client_ok (client (env (send_request rq w)))"
  by (simp add: send_request_def client_ok_echo)

lemma log_error_observations [simp]:
  "logged (log_error e w) = logged w @ [[JStr (error_diagnostic e)]]"
  "requests (log_error e w) = requests w"
  "outstanding (log_error e w) = outstanding w"
  "content (log_error e w) = content w"
  "shown (log_error e w) = shown w"
  "entries (log_error e w) = entries w"
  "env (log_error e w) = env w"
  "navigated (page (log_error e w)) = navigated (page w)"
  "uncaught (page (log_error e w)) = uncaught (page w)"
  by (simp_all add: log_error_def observation_defs)

section \<open>Showing a response: both branches\<close>

lemma showResponse_returns:
  "response (env w) = Some r \<Longrightarrow>
     showResponse m w = returns (w\<lparr>page := set_innerHTML r m (page w)\<rparr>)"
  by (simp add: showResponse_def)

lemma showResponse_throws: "response (env w) = None \<Longrightarrow> showResponse m w = throws TypeError"
  by (simp add: showResponse_def)

lemma showResponse_returnsD:
  assumes "showResponse m w = returns w'"
  shows "shown w' = Some m" and "env w' = env w" and "logged w' = logged w"
    and "requests w' = requests w" and "outstanding w' = outstanding w"
    and "entries w' = entries w"
    and "r \<noteq> the (response (env w)) \<Longrightarrow> content w' r = content w r"
  using assms
  by (auto simp: showResponse_def observation_defs split: option.splits)

section \<open>The callback: every branch\<close>

lemma echo_callback_error [simp]: "echo_callback (Some e) resp w = returns (log_error e w)"
  by (simp add: echo_callback_def)

lemma echo_callback_success [simp]:
  "echo_callback None (Some r) w = showResponse (getMessage r) w"
  by (simp add: echo_callback_def)

lemma echo_callback_neither [simp]: "echo_callback None None w = throws TypeError"
  by (simp add: echo_callback_def)

lemma echo_callback_env:
  "echo_callback err resp w = returns w' \<Longrightarrow> env w' = env w"
  by (auto simp: echo_callback_def showResponse_def split: option.splits)

lemma echo_callback_throws_iff:
  "echo_callback err resp w = throws TypeError \<longleftrightarrow>
     err = None \<and> (resp = None \<or> response (env w) = None)"
  by (auto simp: echo_callback_def showResponse_def split: option.splits)

section \<open>The listener: every branch\<close>

lemma submit_listener_event [simp]: "fst (submit_listener ev w) = preventDefault ev"
  by (simp add: submit_listener_def Let_def split: sum.splits)

lemma submit_listener_prevents: "defaultPrevented (fst (submit_listener ev w))"
  by simp

lemma submit_listener_not_form:
  "entries w = None \<Longrightarrow> submit_listener ev w = (preventDefault ev, throws TypeError)"
  by (simp add: submit_listener_def)

lemma submit_listener_form:
  assumes "entries w = Some es"
  shows "submit_listener ev w =
    (preventDefault ev,
     returns (send_request (build_request (FormData_get es ''message''))
                (log_sent (FormData_get es ''message'') w)))"
  using assms by (simp add: submit_listener_def Let_def)

lemma submit_listener_throws_iff:
  "snd (submit_listener ev w) = throws TypeError \<longleftrightarrow> entries w = None"
  by (cases "entries w") (simp_all add: submit_listener_not_form submit_listener_form)

end
