(* ===== verification/Browser.thy ===== *)
theory Browser
  imports Handler
begin

text \<open>
  How the browser runs the program: the single-threaded event loop of the
  specification's concurrency model. Nothing here is code of the repository; it is
  the harness in which the functions of \<open>Handler\<close> are called.

  \<^item> A \<open>browser_event\<close> is one turn of the loop: the user edits the controls of a form
    (\<open>Input\<close>), a \<open>submit\<close> event is fired at an element (\<open>Submit\<close>), or the transport
    resolves a call (\<open>Complete\<close>) with an outcome the model takes as given.
  \<^item> \<open>fire_submit\<close> dispatches a fresh, not yet prevented event to the element's submit
    listeners in registration order; a listener that throws is reported and the
    next one runs. Afterwards the default action, navigating away, takes place
    unless a listener prevented it (and only a form has one).
  \<^item> \<open>complete\<close> takes the call out of the client's in-flight list and runs its
    callback with the outcome's arguments; a fault is reported.
  \<^item> \<open>step\<close> is one turn as a total function: after the page has navigated away
    nothing runs any more, and resolving a call that is not in flight does nothing.
    \<open>browser_step\<close> is the same turn as a relation, with the conditions under which
    a browser produces the event (\<open>enabled\<close>: submit and input events go to forms of a
    page that is still there, and only a call in flight is resolved); \<open>trace\<close> and
    \<open>reachable\<close> are its runs from a state and from a loaded document. \<open>run\<close>
    executes a list of events and \<open>run_enabled\<close> decides whether a browser can
    produce that list, so a concrete run is checked by evaluation.
\<close>

section \<open>Events\<close>

datatype browser_event =
    Input ref "(string \<times> string) list"
  | Submit ref
  | Complete nat rpc_outcome

definition submit_event :: event where
  "submit_event = \<lparr>event_type = ''submit'', defaultPrevented = False\<rparr>"

section \<open>Dispatch\<close>

definition reported :: "js_error \<Rightarrow> world \<Rightarrow> world" where
  "reported e w = w\<lparr>page := report e (page w)\<rparr>"

fun run_listeners :: "listener list \<Rightarrow> event \<Rightarrow> world \<Rightarrow> event \<times> world" where
  "run_listeners [] ev w = (ev, w)"
| "run_listeners (l # ls) ev w =
     (case apply_listener l ev w of
        (ev', Inl e) \<Rightarrow> run_listeners ls ev' (reported e w)
      | (ev', Inr w') \<Rightarrow> run_listeners ls ev' w')"

definition fire_submit :: "ref \<Rightarrow> world \<Rightarrow> world" where
  "fire_submit r w =
     (case run_listeners (listeners_for ''submit'' (heap (page w) r)) submit_event w of
        (ev, w') \<Rightarrow>
          if defaultPrevented ev \<or> entry_list (heap (page w) r) = None then w'
          else w'\<lparr>page := navigate (page w')\<rparr>)"

definition user_input :: "ref \<Rightarrow> (string \<times> string) list \<Rightarrow> world \<Rightarrow> world" where
  "user_input r es w = w\<lparr>page := set_entry_list r es (page w)\<rparr>"

definition complete :: "nat \<Rightarrow> rpc_outcome \<Rightarrow> world \<Rightarrow> world" where
  "complete i out w =
     (case take_call i (client (env w)) of
        None \<Rightarrow> w
      | Some (pc, c') \<Rightarrow>
          (let w1 = w\<lparr>env := (env w)\<lparr>client := c'\<rparr>\<rparr> in
           case callback_args out of
             (err, resp) \<Rightarrow>
               (case apply_callback (call_callback pc) err resp w1 of
                  Inl e \<Rightarrow> reported e w1
                | Inr w2 \<Rightarrow> w2)))"

section \<open>One turn of the loop, and runs\<close>

fun handle :: "browser_event \<Rightarrow> world \<Rightarrow> world" where
  "handle (Input r es) w = user_input r es w"
| "handle (Submit r) w = fire_submit r w"
| "handle (Complete i out) w = complete i out w"

definition step :: "world \<Rightarrow> browser_event \<Rightarrow> world" where
  "step w e = (if navigated (page w) then w else handle e w)"

definition run :: "world \<Rightarrow> browser_event list \<Rightarrow> world" where
  "run w es = foldl step w es"

fun enabled :: "world \<Rightarrow> browser_event \<Rightarrow> bool" where
  "enabled w (Input r es) \<longleftrightarrow> \<not> navigated (page w) \<and> entry_list (heap (page w) r) \<noteq> None"
| "enabled w (Submit r) \<longleftrightarrow> \<not> navigated (page w) \<and> entry_list (heap (page w) r) \<noteq> None"
| "enabled w (Complete i out) \<longleftrightarrow> \<not> navigated (page w) \<and> i \<in> set (outstanding w)"

fun run_enabled :: "world \<Rightarrow> browser_event list \<Rightarrow> bool" where
  "run_enabled w [] \<longleftrightarrow> True"
| "run_enabled w (e # es) \<longleftrightarrow> enabled w e \<and> run_enabled (step w e) es"

inductive browser_step :: "world \<Rightarrow> browser_event \<Rightarrow> world \<Rightarrow> bool" where
  input: "\<not> navigated (page w) \<Longrightarrow> entry_list (heap (page w) r) \<noteq> None \<Longrightarrow>
     browser_step w (Input r es) (user_input r es w)"
| submit: "\<not> navigated (page w) \<Longrightarrow> entry_list (heap (page w) r) \<noteq> None \<Longrightarrow>
     browser_step w (Submit r) (fire_submit r w)"
| resolve: "\<not> navigated (page w) \<Longrightarrow> i \<in> set (outstanding w) \<Longrightarrow>
     browser_step w (Complete i out) (complete i out w)"

inductive trace :: "world \<Rightarrow> browser_event list \<Rightarrow> world \<Rightarrow> bool" for w where
  trace_nil: "trace w [] w"
| trace_snoc: "trace w es w' \<Longrightarrow> browser_step w' e w'' \<Longrightarrow> trace w (es @ [e]) w''"

inductive reachable :: "listener page \<Rightarrow> world \<Rightarrow> bool" for p where
  loaded: "load_module p = returns w \<Longrightarrow> reachable p w"
| stepped: "reachable p w \<Longrightarrow> browser_step w e w' \<Longrightarrow> reachable p w'"

inductive_cases browser_step_InputE [elim!]: "browser_step w (Input r es) w'"
inductive_cases browser_step_SubmitE [elim!]: "browser_step w (Submit r) w'"
inductive_cases browser_step_CompleteE [elim!]: "browser_step w (Complete i out) w'"
inductive_cases trace_NilE [elim!]: "trace w [] w'"
inductive_cases trace_snocE [elim!]: "trace w (es @ [e]) w'"

inductive_simps trace_Nil_iff [simp]: "trace w [] w'"

code_pred browser_step .

lemmas browser_defs [js_defs] =
  submit_event_def reported_def fire_submit_def user_input_def complete_def step_def run_def

section \<open>The relation and the function agree\<close>

lemma browser_step_enabled: "browser_step w e w' \<Longrightarrow> enabled w e"
  by (induction rule: browser_step.induct) simp_all

lemma browser_step_step: "browser_step w e w' \<Longrightarrow> step w e = w'"
  by (induction rule: browser_step.induct) (simp_all add: step_def)

lemma enabled_browser_step: "enabled w e \<Longrightarrow> browser_step w e (step w e)"
  by (cases e) (auto simp: step_def intro: browser_step.intros)

lemma browser_step_iff: "browser_step w e w' \<longleftrightarrow> enabled w e \<and> w' = step w e"
  by (auto dest: browser_step_enabled browser_step_step intro: enabled_browser_step)

lemma browser_step_deterministic:
  "browser_step w e w' \<Longrightarrow> browser_step w e w'' \<Longrightarrow> w' = w''"
  by (simp add: browser_step_iff)

lemma run_Nil [simp]: "run w [] = w"
  by (simp add: run_def)

lemma run_Cons [simp]: "run w (e # es) = run (step w e) es"
  by (simp add: run_def)

lemma run_append [simp]: "run w (es @ fs) = run (run w es) fs"
  by (simp add: run_def)

lemma trace_run: "trace w es w' \<Longrightarrow> run w es = w'"
  by (induction rule: trace.induct) (simp_all add: browser_step_step)

lemma trace_single: "browser_step w e w' \<Longrightarrow> trace w [e] w'"
  using trace_snoc [OF trace_nil] by fastforce

lemma trace_append: "trace w es w' \<Longrightarrow> trace w' fs w'' \<Longrightarrow> trace w (es @ fs) w''"
proof (induction fs arbitrary: w'' rule: rev_induct)
  case Nil
  then show ?case by auto
next
  case (snoc f fs)
  from snoc.prems(2) obtain v where "trace w' fs v" and "browser_step v f w''"
    by auto
  with snoc.IH [OF snoc.prems(1)] show ?case
    using trace_snoc [of w "es @ fs" v f w''] by simp
qed

lemma run_enabled_append [simp]:
  "run_enabled w (es @ fs) \<longleftrightarrow> run_enabled w es \<and> run_enabled (run w es) fs"
  by (induction es arbitrary: w) auto

lemma trace_iff_run: "trace w es w' \<longleftrightarrow> run_enabled w es \<and> w' = run w es"
proof
  assume "trace w es w'"
  then show "run_enabled w es \<and> w' = run w es"
    by (induction rule: trace.induct) (auto simp: browser_step_iff)
next
  assume "run_enabled w es \<and> w' = run w es"
  then show "trace w es w'"
  proof (induction es arbitrary: w' rule: rev_induct)
    case Nil
    then show ?case by (simp add: trace_nil)
  next
    case (snoc e es)
    then have "trace w es (run w es)" and "browser_step (run w es) e w'"
      by (auto simp: browser_step_iff)
    then show ?case by (rule trace_snoc)
  qed
qed

lemma trace_deterministic: "trace w es w' \<Longrightarrow> trace w es w'' \<Longrightarrow> w' = w''"
  by (auto dest: trace_run)

lemma reachable_trace:
  "reachable p w \<longleftrightarrow> (\<exists>w0 es. load_module p = returns w0 \<and> trace w0 es w)"
proof
  assume "reachable p w"
  then show "\<exists>w0 es. load_module p = returns w0 \<and> trace w0 es w"
  proof (induction rule: reachable.induct)
    case (loaded w)
    then show ?case by (auto intro: trace_nil)
  next
    case (stepped w e w')
    then show ?case by (blast intro: trace_snoc)
  qed
next
  assume "\<exists>w0 es. load_module p = returns w0 \<and> trace w0 es w"
  then obtain w0 es where w0: "load_module p = returns w0" and tr: "trace w0 es w"
    by blast
  from tr show "reachable p w"
    by (induction rule: trace.induct) (auto intro: reachable.intros w0)
qed

lemma reachable_run:
  "load_module p = returns w0 \<Longrightarrow> run_enabled w0 es \<Longrightarrow> reachable p (run w0 es)"
  by (auto simp: reachable_trace trace_iff_run)

section \<open>Reporting a fault\<close>

lemma reported_observations [simp]:
  "requests (reported e w) = requests w"
  "outstanding (reported e w) = outstanding w"
  "logged (reported e w) = logged w"
  "content (reported e w) = content w"
  "shown (reported e w) = shown w"
  "entries (reported e w) = entries w"
  "env (reported e w) = env w"
  "navigated (page (reported e w)) = navigated (page w)"
  "uncaught (page (reported e w)) = uncaught (page w) @ [e]"
  by (simp_all add: reported_def observation_defs)

end
