(* ===== verification/Invariants.thy ===== *)
theory Invariants
  imports Browser
begin

text \<open>
  What holds of every state the program can be in, and what each turn of the event
  loop does to the observations.

  \<^item> \<open>pristine\<close> describes a document as parsed, before any script has run: no
    listener is registered, the page has not navigated, no fault is pending.
  \<^item> \<open>world_ok p\<close> is the invariant of the program loaded into document \<open>p\<close>: the
    bindings still name the elements found at load time, the one listener is the
    submit listener on \<open>form\<close>, an element is a form exactly when it was one in
    \<open>p\<close>, the client is well formed and still talks to \<open>endpoint\<close>. It holds after
    \<open>load_module\<close> and every turn keeps it.
  \<^item> The \<open>_turn\<close> lemmas give, for each kind of event, the state after the turn in
    closed form; the \<open>_observations\<close> lemmas read the observations of \<open>Handler\<close> off
    it. The properties of the root theory are derived from these.
\<close>

section \<open>The invariant\<close>

definition pristine :: "listener page \<Rightarrow> bool" where
  "pristine p \<longleftrightarrow> (\<forall>r. listeners (heap p r) = []) \<and> \<not> navigated p \<and> uncaught p = []"

definition world_ok :: "listener page \<Rightarrow> world \<Rightarrow> bool" where
  "world_ok p w \<longleftrightarrow>
     ids p ''form'' = Some (form (env w)) \<and>
     response (env w) = ids p ''response'' \<and>
     ids (page w) = ids p \<and>
     (\<forall>r. listeners (heap (page w) r) =
        (if r = form (env w) then [(''submit'', SubmitListener)] else [])) \<and>
     (\<forall>r. entry_list (heap (page w) r) = None \<longleftrightarrow> entry_list (heap p r) = None) \<and>
     client_ok (client (env w)) \<and>
     hostname (client (env w)) = endpoint"

lemma world_okD:
  assumes "world_ok p w"
  shows "ids p ''form'' = Some (form (env w))"
    and "response (env w) = ids p ''response''"
    and "ids (page w) = ids p"
    and "listeners (heap (page w) r) =
          (if r = form (env w) then [(''submit'', SubmitListener)] else [])"
    and "client_ok (client (env w))"
    and "hostname (client (env w)) = endpoint"
    and "entry_list (heap (page w) r) = None \<longleftrightarrow> entry_list (heap p r) = None"
  using assms by (simp_all add: world_ok_def)

lemma world_ok_listeners_form [simp]:
  "world_ok p w \<Longrightarrow> listeners_for ''submit'' (heap (page w) (form (env w))) = [SubmitListener]"
  by (simp add: listeners_for_def world_okD(4))

lemma world_ok_listeners_other [simp]:
  "world_ok p w \<Longrightarrow> r \<noteq> form (env w) \<Longrightarrow> listeners_for ty (heap (page w) r) = []"
  by (simp add: listeners_for_def world_okD(4))

lemma world_ok_load [inv_intros]:
  assumes "pristine p" and "load_module p = returns w"
  shows "world_ok p w"
  using assms load_module_returnsD [OF assms(2)]
  by (simp add: world_ok_def pristine_def)

section \<open>A submit event at the program's form\<close>

lemma fire_submit_form_turn:
  assumes "world_ok p w" and "entries w = Some es"
  shows "fire_submit (form (env w)) w =
     send_request (build_request (FormData_get es ''message''))
       (log_sent (FormData_get es ''message'') w)"
  using assms by (simp add: fire_submit_def submit_listener_form)

lemma fire_submit_not_form_turn:
  assumes "world_ok p w" and "entries w = None"
  shows "fire_submit (form (env w)) w = reported TypeError w"
  using assms by (simp add: fire_submit_def submit_listener_not_form)

lemma fire_submit_other_turn:
  assumes "world_ok p w" and "r \<noteq> form (env w)"
  shows "fire_submit r w =
     (if entry_list (heap (page w) r) = None then w else w\<lparr>page := navigate (page w)\<rparr>)"
  using assms by (simp add: fire_submit_def submit_event_def)

lemma fire_submit_form_observations:
  assumes "world_ok p w" and "entries w = Some es"
  defines "w' \<equiv> fire_submit (form (env w)) w"
  shows "requests w' = requests w @ [build_request (FormData_get es ''message'')]"
    and "outstanding w' = outstanding w @ [length (requests w)]"
    and "logged w' = logged w @ [[JStr ''message send from browser'', FormData_get es ''message'']]"
    and "content w' = content w" and "shown w' = shown w" and "entries w' = entries w"
    and "navigated (page w') = navigated (page w)"
    and "uncaught (page w') = uncaught (page w)"
  unfolding w'_def fire_submit_form_turn [OF assms(1,2)] by simp_all

section \<open>A completion\<close>

lemma complete_not_pending_turn: "i \<notin> set (outstanding w) \<Longrightarrow> complete i out w = w"
  by (simp add: complete_def outstanding_def take_call_None_iff [THEN iffD2])

lemma take_call_pending:
  assumes "i \<in> set (outstanding w)"
  obtains pc c' where "take_call i (client (env w)) = Some (pc, c')"
  using assms take_call_None_iff [of i "client (env w)"]
  by (cases "take_call i (client (env w))") (auto simp: outstanding_def)

lemma complete_failed_turn:
  assumes "take_call i (client (env w)) = Some (pc, c')"
  shows "complete i (Failed e) w = log_error e (w\<lparr>env := (env w)\<lparr>client := c'\<rparr>\<rparr>)"
  using assms by (cases "call_callback pc") (simp add: complete_def)

lemma complete_succeeded_turn:
  assumes "take_call i (client (env w)) = Some (pc, c')" and "response (env w) = Some r"
  shows "complete i (Succeeded rs) w =
     w\<lparr>env := (env w)\<lparr>client := c'\<rparr>, page := set_innerHTML r (getMessage rs) (page w)\<rparr>"
  using assms by (cases "call_callback pc") (simp add: complete_def showResponse_def)

lemma complete_succeeded_no_element_turn:
  assumes "take_call i (client (env w)) = Some (pc, c')" and "response (env w) = None"
  shows "complete i (Succeeded rs) w =
     w\<lparr>env := (env w)\<lparr>client := c'\<rparr>, page := report TypeError (page w)\<rparr>"
  using assms by (cases "call_callback pc") (simp add: complete_def showResponse_def reported_def)

lemma complete_failed_observations:
  fixes e :: rpc_error
  assumes "i \<in> set (outstanding w)"
  defines "w' \<equiv> complete i (Failed e) w"
  shows "logged w' = logged w @ [[JStr (error_diagnostic e)]]"
    and "content w' = content w" and "shown w' = shown w"
    and "requests w' = requests w" and "entries w' = entries w"
    and "outstanding w' = filter (\<lambda>j. j \<noteq> i) (outstanding w)"
    and "navigated (page w') = navigated (page w)"
    and "uncaught (page w') = uncaught (page w)"
proof -
  from assms(1) obtain pc c' where t: "take_call i (client (env w)) = Some (pc, c')"
    by (rule take_call_pending)
  note eq = complete_failed_turn [OF t, of e] and d = take_call_SomeD [OF t]
  show "logged w' = logged w @ [[JStr (error_diagnostic e)]]"
    and "content w' = content w" and "shown w' = shown w"
    and "requests w' = requests w" and "entries w' = entries w"
    and "outstanding w' = filter (\<lambda>j. j \<noteq> i) (outstanding w)"
    and "navigated (page w') = navigated (page w)"
    and "uncaught (page w') = uncaught (page w)"
    unfolding w'_def eq by (simp_all add: observation_defs d log_error_def)
qed

lemma complete_succeeded_observations:
  fixes rs :: echo_response
  assumes "i \<in> set (outstanding w)" and "response (env w) = Some r"
  defines "w' \<equiv> complete i (Succeeded rs) w"
  shows "content w' = (content w)(r := resp_message rs)"
    and "shown w' = Some (resp_message rs)"
    and "logged w' = logged w"
    and "requests w' = requests w" and "entries w' = entries w"
    and "outstanding w' = filter (\<lambda>j. j \<noteq> i) (outstanding w)"
    and "navigated (page w') = navigated (page w)"
    and "uncaught (page w') = uncaught (page w)"
proof -
  from assms(1) obtain pc c' where t: "take_call i (client (env w)) = Some (pc, c')"
    by (rule take_call_pending)
  note eq = complete_succeeded_turn [OF t assms(2), of rs] and d = take_call_SomeD [OF t]
  show "content w' = (content w)(r := resp_message rs)"
    and "shown w' = Some (resp_message rs)"
    and "logged w' = logged w"
    and "requests w' = requests w" and "entries w' = entries w"
    and "outstanding w' = filter (\<lambda>j. j \<noteq> i) (outstanding w)"
    and "navigated (page w') = navigated (page w)"
    and "uncaught (page w') = uncaught (page w)"
    unfolding w'_def eq
    by (auto simp: observation_defs d assms(2) getMessage_def fun_eq_iff)
qed

lemma complete_succeeded_no_element_observations:
  fixes rs :: echo_response
  assumes "i \<in> set (outstanding w)" and "response (env w) = None"
  defines "w' \<equiv> complete i (Succeeded rs) w"
  shows "content w' = content w" and "shown w' = None"
    and "logged w' = logged w" and "requests w' = requests w" and "entries w' = entries w"
    and "uncaught (page w') = uncaught (page w) @ [TypeError]"
    and "navigated (page w') = navigated (page w)"
    and "outstanding w' = filter (\<lambda>j. j \<noteq> i) (outstanding w)"
proof -
  from assms(1) obtain pc c' where t: "take_call i (client (env w)) = Some (pc, c')"
    by (rule take_call_pending)
  note eq = complete_succeeded_no_element_turn [OF t assms(2), of rs]
    and d = take_call_SomeD [OF t]
  show "content w' = content w" and "shown w' = None"
    and "logged w' = logged w" and "requests w' = requests w" and "entries w' = entries w"
    and "uncaught (page w') = uncaught (page w) @ [TypeError]"
    and "navigated (page w') = navigated (page w)"
    and "outstanding w' = filter (\<lambda>j. j \<noteq> i) (outstanding w)"
    unfolding w'_def eq by (simp_all add: observation_defs d assms(2))
qed

section \<open>User input\<close>

lemma user_input_observations [simp]:
  "requests (user_input r es w) = requests w"
  "outstanding (user_input r es w) = outstanding w"
  "logged (user_input r es w) = logged w"
  "content (user_input r es w) = content w"
  "shown (user_input r es w) = shown w"
  "env (user_input r es w) = env w"
  "navigated (page (user_input r es w)) = navigated (page w)"
  "uncaught (page (user_input r es w)) = uncaught (page w)"
  by (simp_all add: user_input_def observation_defs)

lemma user_input_entries:
  "entries (user_input r es w) =
     (if r = form (env w) \<and> entries w \<noteq> None then Some es else entries w)"
  by (simp add: user_input_def entries_def entry_list_set_entry_list)

section \<open>Every turn keeps the invariant\<close>

lemma world_ok_user_input [inv_intros]: "world_ok p w \<Longrightarrow> world_ok p (user_input r es w)"
  by (simp add: world_ok_def user_input_def)

lemma world_ok_reported [inv_intros]: "world_ok p w \<Longrightarrow> world_ok p (reported e w)"
  by (simp add: world_ok_def reported_def)

lemma world_ok_fire_submit [inv_intros]:
  assumes "world_ok p w"
  shows "world_ok p (fire_submit r w)"
proof (cases "r = form (env w)")
  case True
  show ?thesis
  proof (cases "entries w")
    case None
    from assms show ?thesis
      unfolding True fire_submit_not_form_turn [OF assms None] by (rule world_ok_reported)
  next
    case (Some es)
    from assms show ?thesis
      unfolding True fire_submit_form_turn [OF assms Some]
      by (simp add: world_ok_def client_ok_send_request log_sent_def)
  qed
next
  case False
  from assms show ?thesis
    unfolding fire_submit_other_turn [OF assms False] by (simp add: world_ok_def)
qed

lemma world_ok_complete [inv_intros]:
  assumes "world_ok p w"
  shows "world_ok p (complete i out w)"
proof (cases "take_call i (client (env w))")
  case None
  with assms show ?thesis by (simp add: complete_def)
next
  case (Some a)
  then obtain pc c' where t: "take_call i (client (env w)) = Some (pc, c')"
    by (cases a) auto
  from assms have ok': "client_ok c'" and h: "hostname c' = endpoint"
    using client_ok_take_call [OF _ t] take_call_SomeD(4) [OF t]
    by (simp_all add: world_ok_def)
  show ?thesis
  proof (cases out)
    case (Failed e)
    from assms ok' h show ?thesis
      unfolding Failed complete_failed_turn [OF t] by (simp add: world_ok_def log_error_def)
  next
    case (Succeeded rs)
    show ?thesis
    proof (cases "response (env w)")
      case None
      from assms ok' h show ?thesis
        unfolding Succeeded complete_succeeded_no_element_turn [OF t None]
        by (simp add: world_ok_def)
    next
      case (Some r)
      from assms ok' h show ?thesis
        unfolding Succeeded complete_succeeded_turn [OF t Some]
        by (simp add: world_ok_def)
    qed
  qed
qed

lemma world_ok_handle [inv_intros]: "world_ok p w \<Longrightarrow> world_ok p (handle e w)"
  by (cases e) (simp_all add: inv_intros)

lemma world_ok_step [inv_intros]: "world_ok p w \<Longrightarrow> world_ok p (step w e)"
  by (simp add: step_def world_ok_handle)

lemma world_ok_browser_step: "browser_step w e w' \<Longrightarrow> world_ok p w \<Longrightarrow> world_ok p w'"
  by (auto simp: browser_step_iff intro: world_ok_step)

lemma world_ok_run: "world_ok p w \<Longrightarrow> world_ok p (run w es)"
  by (induction es arbitrary: w) (simp_all add: world_ok_step)

lemma world_ok_trace: "trace w es w' \<Longrightarrow> world_ok p w \<Longrightarrow> world_ok p w'"
  by (induction rule: trace.induct) (auto intro: world_ok_browser_step)

lemma reachable_world_ok:
  assumes "pristine p" and "reachable p w"
  shows "world_ok p w"
  using assms(2)
proof (induction rule: reachable.induct)
  case (loaded w)
  with assms(1) show ?case by (rule world_ok_load)
next
  case (stepped w e w')
  then show ?case by (blast intro: world_ok_browser_step)
qed

end
