(* ===== verification/Abstract_Spec.thy ===== *)
theory Abstract_Spec
  imports Diagnostic Dom
begin

text \<open>
  What the page promises, as the specification states it, with no DOM, no closures
  and no client: a machine over the things a user and the network can observe.

  \<^item> \<open>spec_state\<close>: the entries of the program's form (\<open>None\<close> when the element \<open>form\<close>
    is not a form), the text shown in the output element (\<open>None\<close> when there is no
    such element), the messages sent to the service in order, the calls in flight,
    the console, the number of faults nobody caught, and whether the browser has
    navigated away.
  \<^item> \<open>spec_event\<close>: the user edits the form, submits it, submits another form of the
    page, or a call is resolved; \<open>Other\<close> is an event that does not concern the
    program.
  \<^item> \<open>spec_step\<close>: one event. A submit sends one message and logs one line; a failed
    call logs the diagnostic; a successful call replaces the output; a submit of
    another form navigates away, after which nothing happens any more.

  The lemmas are the properties of whole runs. \<open>Refinement\<close> shows that the program in
  the browser implements this machine, and the root theory moves the properties over.
\<close>

section \<open>The machine\<close>

datatype spec_event =
    Edit "(string \<times> string) list"
  | SubmitForm
  | SubmitElsewhere
  | Resolve nat rpc_outcome
  | Other

record spec_state =
  s_entries :: "(string \<times> string) list option"
  s_shown :: "string option"
  s_requests :: "js_value list"
  s_waiting :: "nat list"
  s_log :: "js_value list list"
  s_faults :: nat
  s_gone :: bool

fun spec_handle :: "spec_event \<Rightarrow> spec_state \<Rightarrow> spec_state" where
  "spec_handle (Edit es) s = (if s_entries s = None then s else s\<lparr>s_entries := Some es\<rparr>)"
| "spec_handle SubmitForm s =
     (case s_entries s of
        None \<Rightarrow> s\<lparr>s_faults := Suc (s_faults s)\<rparr>
      | Some es \<Rightarrow>
          s\<lparr>s_requests := s_requests s @ [FormData_get es ''message''],
            s_waiting := s_waiting s @ [length (s_requests s)],
            s_log := s_log s @ [[JStr ''message send from browser'', FormData_get es ''message'']]\<rparr>)"
| "spec_handle SubmitElsewhere s = s\<lparr>s_gone := True\<rparr>"
| "spec_handle (Resolve i out) s =
     (if i \<notin> set (s_waiting s) then s
      else case out of
          Failed e \<Rightarrow>
            s\<lparr>s_waiting := removeAll i (s_waiting s),
              s_log := s_log s @ [[JStr (error_diagnostic e)]]\<rparr>
        | Succeeded rs \<Rightarrow>
            (case s_shown s of
               None \<Rightarrow> s\<lparr>s_waiting := removeAll i (s_waiting s), s_faults := Suc (s_faults s)\<rparr>
             | Some _ \<Rightarrow>
                 s\<lparr>s_waiting := removeAll i (s_waiting s), s_shown := Some (resp_message rs)\<rparr>))"
| "spec_handle Other s = s"

definition spec_step :: "spec_state \<Rightarrow> spec_event \<Rightarrow> spec_state" where
  "spec_step s e = (if s_gone s then s else spec_handle e s)"

definition spec_run :: "spec_state \<Rightarrow> spec_event list \<Rightarrow> spec_state" where
  "spec_run s es = foldl spec_step s es"

fun spec_enabled :: "spec_state \<Rightarrow> spec_event \<Rightarrow> bool" where
  "spec_enabled s (Edit es) \<longleftrightarrow> \<not> s_gone s \<and> s_entries s \<noteq> None"
| "spec_enabled s SubmitForm \<longleftrightarrow> \<not> s_gone s \<and> s_entries s \<noteq> None"
| "spec_enabled s SubmitElsewhere \<longleftrightarrow> \<not> s_gone s"
| "spec_enabled s (Resolve i out) \<longleftrightarrow> \<not> s_gone s \<and> i \<in> set (s_waiting s)"
| "spec_enabled s Other \<longleftrightarrow> \<not> s_gone s"

fun spec_run_enabled :: "spec_state \<Rightarrow> spec_event list \<Rightarrow> bool" where
  "spec_run_enabled s [] \<longleftrightarrow> True"
| "spec_run_enabled s (e # es) \<longleftrightarrow> spec_enabled s e \<and> spec_run_enabled (spec_step s e) es"

lemma spec_run_Nil [simp]: "spec_run s [] = s"
  by (simp add: spec_run_def)

lemma spec_run_Cons [simp]: "spec_run s (e # es) = spec_run (spec_step s e) es"
  by (simp add: spec_run_def)

lemma spec_run_append [simp]: "spec_run s (es @ fs) = spec_run (spec_run s es) fs"
  by (simp add: spec_run_def)

lemma spec_run_snoc: "spec_run s (es @ [e]) = spec_step (spec_run s es) e"
  by simp

lemma spec_run_enabled_append [simp]:
  "spec_run_enabled s (es @ fs) \<longleftrightarrow> spec_run_enabled s es \<and> spec_run_enabled (spec_run s es) fs"
  by (induction es arbitrary: s) auto

lemma spec_step_enabled: "spec_enabled s e \<Longrightarrow> spec_step s e = spec_handle e s"
  by (cases e) (simp_all add: spec_step_def)

lemma spec_step_gone [simp]: "s_gone s \<Longrightarrow> spec_step s e = s"
  by (simp add: spec_step_def)

lemma spec_run_gone [simp]: "s_gone s \<Longrightarrow> spec_run s es = s"
  by (induction es) simp_all

section \<open>What a run reads\<close>

text \<open>The text a completion writes, the message a submit sends given the entries
  at that moment, and the entries after a list of events.\<close>

fun written :: "spec_event \<Rightarrow> string option" where
  "written (Resolve i (Succeeded rs)) = Some (resp_message rs)"
| "written _ = None"

fun entries_after :: "(string \<times> string) list \<Rightarrow> spec_event list \<Rightarrow> (string \<times> string) list" where
  "entries_after es [] = es"
| "entries_after es (Edit es' # evs) = entries_after es' evs"
| "entries_after es (_ # evs) = entries_after es evs"

fun submitted :: "(string \<times> string) list \<Rightarrow> spec_event list \<Rightarrow> js_value list" where
  "submitted es [] = []"
| "submitted es (Edit es' # evs) = submitted es' evs"
| "submitted es (SubmitForm # evs) = FormData_get es ''message'' # submitted es evs"
| "submitted es (_ # evs) = submitted es evs"

fun log_lines :: "(string \<times> string) list \<Rightarrow> spec_event list \<Rightarrow> js_value list list" where
  "log_lines es [] = []"
| "log_lines es (Edit es' # evs) = log_lines es' evs"
| "log_lines es (SubmitForm # evs) =
     [JStr ''message send from browser'', FormData_get es ''message''] # log_lines es evs"
| "log_lines es (Resolve i (Failed e) # evs) = [JStr (error_diagnostic e)] # log_lines es evs"
| "log_lines es (_ # evs) = log_lines es evs"

definition failures :: "spec_event list \<Rightarrow> nat" where
  "failures evs = length (filter (\<lambda>e. case e of Resolve i (Failed x) \<Rightarrow> True | _ \<Rightarrow> False) evs)"

definition submits :: "spec_event list \<Rightarrow> nat" where
  "submits evs = length (filter (\<lambda>e. e = SubmitForm) evs)"

definition resolutions :: "spec_event list \<Rightarrow> nat" where
  "resolutions evs = length (filter (\<lambda>e. case e of Resolve i out \<Rightarrow> True | _ \<Rightarrow> False) evs)"

lemma length_submitted [simp]: "length (submitted es evs) = submits evs"
  by (induction es evs rule: submitted.induct) (simp_all add: submits_def)

lemma submits_simps [simp]:
  "submits [] = 0"
  "submits (SubmitForm # evs) = Suc (submits evs)"
  "e \<noteq> SubmitForm \<Longrightarrow> submits (e # evs) = submits evs"
  "submits (evs @ evs') = submits evs + submits evs'"
  by (simp_all add: submits_def)

lemma resolutions_simps [simp]:
  "resolutions [] = 0"
  "resolutions (Resolve i out # evs) = Suc (resolutions evs)"
  "resolutions (Edit es # evs) = resolutions evs"
  "resolutions (SubmitForm # evs) = resolutions evs"
  "resolutions (SubmitElsewhere # evs) = resolutions evs"
  "resolutions (Other # evs) = resolutions evs"
  "resolutions (evs @ evs') = resolutions evs + resolutions evs'"
  by (simp_all add: resolutions_def)

lemma entries_after_Cons:
  "entries_after es (e # evs) = entries_after (entries_after es [e]) evs"
  by (cases e) simp_all

lemma submitted_Cons:
  "submitted es (e # evs) = submitted es [e] @ submitted (entries_after es [e]) evs"
  by (cases e) simp_all

lemma log_lines_Cons:
  "log_lines es (e # evs) = log_lines es [e] @ log_lines (entries_after es [e]) evs"
proof (cases e)
  case (Resolve i out)
  then show ?thesis by (cases out) simp_all
qed simp_all

lemma length_log_lines: "length (log_lines es evs) = submits evs + failures evs"
  by (induction es evs rule: log_lines.induct) (simp_all add: failures_def submits_def)

section \<open>Single steps\<close>

lemma spec_step_shown:
  assumes "spec_enabled s e"
  shows "s_shown (spec_step s e) =
     (case written e of None \<Rightarrow> s_shown s | Some m \<Rightarrow> map_option (\<lambda>_. m) (s_shown s))"
  using assms
  by (cases e) (auto simp: spec_step_def split: option.splits rpc_outcome.splits)

lemma spec_step_entries:
  assumes "s_entries s = Some es" and "spec_enabled s e"
  shows "s_entries (spec_step s e) = Some (entries_after es [e])"
  using assms
  by (cases e) (auto simp: spec_step_def split: option.splits rpc_outcome.splits)

lemma spec_step_requests:
  assumes "s_entries s = Some es" and "spec_enabled s e"
  shows "s_requests (spec_step s e) = s_requests s @ submitted es [e]"
  using assms
  by (cases e) (auto simp: spec_step_def split: option.splits rpc_outcome.splits)

lemma spec_step_log:
  assumes "s_entries s = Some es" and "spec_enabled s e"
  shows "s_log (spec_step s e) = s_log s @ log_lines es [e]"
  using assms
  by (cases e) (auto simp: spec_step_def split: option.splits rpc_outcome.splits)

lemma spec_step_waiting:
  assumes "distinct (s_waiting s)" and "s_entries s \<noteq> None" and "spec_enabled s e"
  shows "length (s_waiting (spec_step s e)) + resolutions [e] = length (s_waiting s) + submits [e]"
  using assms
  by (cases e)
    (auto simp: spec_step_def length_removeAll_distinct split: option.splits rpc_outcome.splits)

lemma spec_step_entries_None [simp]:
  "s_entries (spec_step s e) = None \<longleftrightarrow> s_entries s = None"
  by (cases e) (auto simp: spec_step_def split: option.splits rpc_outcome.splits)

lemma spec_step_shown_None [simp]:
  "s_shown (spec_step s e) = None \<longleftrightarrow> s_shown s = None"
  by (cases e) (auto simp: spec_step_def split: option.splits rpc_outcome.splits)

lemma spec_step_log_prefix: "prefix (s_log s) (s_log (spec_step s e))"
  by (cases e) (auto simp: spec_step_def split: option.splits rpc_outcome.splits)

lemma spec_step_requests_prefix: "prefix (s_requests s) (s_requests (spec_step s e))"
  by (cases e) (auto simp: spec_step_def split: option.splits rpc_outcome.splits)

lemma spec_step_faults_mono: "s_faults s \<le> s_faults (spec_step s e)"
  by (cases e) (auto simp: spec_step_def split: option.splits rpc_outcome.splits)

lemma spec_step_gone_mono: "s_gone s \<Longrightarrow> s_gone (spec_step s e)"
  by simp

lemma spec_step_gone_iff: "s_gone (spec_step s e) \<longleftrightarrow> s_gone s \<or> e = SubmitElsewhere"
  by (cases e) (auto simp: spec_step_def split: option.splits rpc_outcome.splits)

lemma spec_step_no_faults:
  "s_entries s \<noteq> None \<Longrightarrow> s_shown s \<noteq> None \<Longrightarrow> s_faults (spec_step s e) = s_faults s"
  by (cases e) (auto simp: spec_step_def split: option.splits rpc_outcome.splits)

section \<open>The state is well formed\<close>

text \<open>Calls in flight have distinct names and each names a message that was sent.\<close>

definition spec_ok :: "spec_state \<Rightarrow> bool" where
  "spec_ok s \<longleftrightarrow> distinct (s_waiting s) \<and> (\<forall>i \<in> set (s_waiting s). i < length (s_requests s))"

lemma spec_ok_step [inv_intros]: "spec_ok s \<Longrightarrow> spec_ok (spec_step s e)"
  by (cases e)
    (auto simp: spec_ok_def spec_step_def less_Suc_eq distinct_removeAll
      split: option.splits rpc_outcome.splits)

lemma spec_ok_run [inv_intros]: "spec_ok s \<Longrightarrow> spec_ok (spec_run s es)"
  by (induction es arbitrary: s) (simp_all add: spec_ok_step)

section \<open>Whole runs\<close>

lemma spec_run_entries_None [simp]:
  "s_entries (spec_run s es) = None \<longleftrightarrow> s_entries s = None"
  by (induction es arbitrary: s) simp_all

lemma spec_run_shown_None [simp]:
  "s_shown (spec_run s es) = None \<longleftrightarrow> s_shown s = None"
  by (induction es arbitrary: s) simp_all

lemma spec_run_log_prefix: "prefix (s_log s) (s_log (spec_run s es))"
proof (induction es arbitrary: s)
  case Nil
  show ?case by simp
next
  case (Cons e es)
  from spec_step_log_prefix Cons.IH show ?case
    unfolding spec_run_Cons by (rule prefix_order.trans)
qed

lemma spec_run_requests_prefix: "prefix (s_requests s) (s_requests (spec_run s es))"
proof (induction es arbitrary: s)
  case Nil
  show ?case by simp
next
  case (Cons e es)
  from spec_step_requests_prefix Cons.IH show ?case
    unfolding spec_run_Cons by (rule prefix_order.trans)
qed

text \<open>The output after a run is the text of the last successful completion, and the
  text it had before when there was none.\<close>

lemma spec_run_shown:
  assumes "spec_run_enabled s evs"
  shows "s_shown (spec_run s evs) =
     (case s_shown s of
        None \<Rightarrow> None
      | Some c \<Rightarrow> Some (case last_Some (map written evs) of None \<Rightarrow> c | Some m \<Rightarrow> m))"
  using assms
proof (induction evs rule: rev_induct)
  case Nil
  show ?case by (simp split: option.splits)
next
  case (snoc e evs)
  then have en: "spec_enabled (spec_run s evs) e" and "spec_run_enabled s evs"
    by simp_all
  with snoc.IH spec_step_shown [OF en] show ?case
    by (auto split: option.splits)
qed

text \<open>The entries, the messages sent and the console after a run are functions of the
  events: each submit sends the message the form held at that moment.\<close>

lemma spec_run_entries:
  assumes "s_entries s = Some es" and "spec_run_enabled s evs"
  shows "s_entries (spec_run s evs) = Some (entries_after es evs)"
  using assms
proof (induction evs arbitrary: s es)
  case Nil
  then show ?case by simp
next
  case (Cons e evs)
  from Cons.prems have "s_entries (spec_step s e) = Some (entries_after es [e])"
    by (simp add: spec_step_entries)
  moreover from Cons.prems have "spec_run_enabled (spec_step s e) evs"
    by simp
  ultimately have "s_entries (spec_run (spec_step s e) evs) =
      Some (entries_after (entries_after es [e]) evs)"
    by (rule Cons.IH)
  then show ?case by (simp add: entries_after_Cons [of es e evs])
qed

lemma spec_run_requests:
  assumes "s_entries s = Some es" and "spec_run_enabled s evs"
  shows "s_requests (spec_run s evs) = s_requests s @ submitted es evs"
  using assms
proof (induction evs arbitrary: s es)
  case Nil
  then show ?case by simp
next
  case (Cons e evs)
  from Cons.prems have st: "s_entries (spec_step s e) = Some (entries_after es [e])"
    and en: "spec_run_enabled (spec_step s e) evs"
    and rq: "s_requests (spec_step s e) = s_requests s @ submitted es [e]"
    by (simp_all add: spec_step_entries spec_step_requests)
  from Cons.IH [OF st en] rq show ?case
    by (simp add: submitted_Cons [of es e evs])
qed

lemma spec_run_log:
  assumes "s_entries s = Some es" and "spec_run_enabled s evs"
  shows "s_log (spec_run s evs) = s_log s @ log_lines es evs"
  using assms
proof (induction evs arbitrary: s es)
  case Nil
  then show ?case by simp
next
  case (Cons e evs)
  from Cons.prems have st: "s_entries (spec_step s e) = Some (entries_after es [e])"
    and en: "spec_run_enabled (spec_step s e) evs"
    and lg: "s_log (spec_step s e) = s_log s @ log_lines es [e]"
    by (simp_all add: spec_step_entries spec_step_log)
  from Cons.IH [OF st en] lg show ?case
    by (simp add: log_lines_Cons [of es e evs])
qed

text \<open>Every call sent is either in flight or has been resolved, exactly once.\<close>

lemma spec_run_waiting:
  assumes "spec_ok s" and "s_entries s \<noteq> None" and "spec_run_enabled s evs"
  shows "length (s_waiting (spec_run s evs)) + resolutions evs =
           length (s_waiting s) + submits evs"
  using assms
proof (induction evs arbitrary: s)
  case Nil
  show ?case by simp
next
  case (Cons e evs)
  from Cons.prems have "spec_ok (spec_step s e)" and "s_entries (spec_step s e) \<noteq> None"
    and "spec_run_enabled (spec_step s e) evs"
    by (simp_all add: spec_ok_step)
  then have "length (s_waiting (spec_run (spec_step s e) evs)) + resolutions evs =
      length (s_waiting (spec_step s e)) + submits evs"
    by (rule Cons.IH)
  moreover from Cons.prems
  have "length (s_waiting (spec_step s e)) + resolutions [e] = length (s_waiting s) + submits [e]"
    by (intro spec_step_waiting) (simp_all add: spec_ok_def)
  ultimately show ?case
    using resolutions_simps(7) [of "[e]" evs] submits_simps(4) [of "[e]" evs] by simp
qed

lemma spec_run_gone_iff: "s_gone (spec_run s es) \<longleftrightarrow> s_gone s \<or> SubmitElsewhere \<in> set es"
  by (induction es arbitrary: s) (auto simp: spec_step_gone_iff)

lemma spec_run_no_faults:
  "s_entries s \<noteq> None \<Longrightarrow> s_shown s \<noteq> None \<Longrightarrow> s_faults (spec_run s es) = s_faults s"
proof (induction es arbitrary: s)
  case Nil
  show ?case by simp
next
  case (Cons e es)
  from Cons.prems have "s_faults (spec_run (spec_step s e) es) = s_faults (spec_step s e)"
    by (intro Cons.IH) simp_all
  with Cons.prems show ?case by (simp add: spec_step_no_faults)
qed

end
