(* ===== verification/Refinement.thy ===== *)
theory Refinement
  imports Invariants Abstract_Spec
begin

text \<open>
  The program in the browser implements the machine of \<open>Abstract_Spec\<close>.

  \<open>spec_of\<close> reads a \<open>spec_state\<close> off a world: the observations of \<open>Handler\<close>, with the
  requests reduced to their messages and the uncaught faults to their number.
  \<open>abs_event p\<close> classifies an event of the browser from the point of view of the
  program loaded into document \<open>p\<close>: input and submit at the element \<open>form\<close>, a submit
  at another form, a completion, or something that does not concern the program.

  \<open>step_refines\<close> is the refinement lemma, \<open>spec_of (step w e) = spec_step (spec_of w)
  (abs_event p e)\<close> in every state that satisfies the invariant; \<open>run_refines\<close> lifts
  it to runs, and \<open>enabled_refines\<close> says that an event the browser can produce is
  one the machine accepts.
\<close>

section \<open>Abstraction\<close>

definition spec_of :: "world \<Rightarrow> spec_state" where
  "spec_of w =
     \<lparr>s_entries = entries w, s_shown = shown w,
      s_requests = map req_message (requests w), s_waiting = outstanding w,
      s_log = logged w, s_faults = length (uncaught (page w)), s_gone = navigated (page w)\<rparr>"

fun abs_event :: "listener page \<Rightarrow> browser_event \<Rightarrow> spec_event" where
  "abs_event p (Input r es) = (if ids p ''form'' = Some r then Edit es else Other)"
| "abs_event p (Submit r) =
     (if ids p ''form'' = Some r then SubmitForm
      else if entry_list (heap p r) = None then Other else SubmitElsewhere)"
| "abs_event p (Complete i out) = Resolve i out"

lemma spec_of_fields [simp]:
  "s_entries (spec_of w) = entries w" "s_shown (spec_of w) = shown w"
  "s_requests (spec_of w) = map req_message (requests w)" "s_waiting (spec_of w) = outstanding w"
  "s_log (spec_of w) = logged w" "s_faults (spec_of w) = length (uncaught (page w))"
  "s_gone (spec_of w) = navigated (page w)"
  by (simp_all add: spec_of_def)

lemma spec_of_eqI:
  assumes "entries w' = entries w" and "shown w' = shown w" and "requests w' = requests w"
    and "outstanding w' = outstanding w" and "logged w' = logged w"
    and "uncaught (page w') = uncaught (page w)" and "navigated (page w') = navigated (page w)"
  shows "spec_of w' = spec_of w"
  using assms by (simp add: spec_of_def)

section \<open>One event\<close>

lemma input_refines:
  assumes "world_ok p w"
  shows "spec_of (user_input r es w) = spec_handle (abs_event p (Input r es)) (spec_of w)"
  using world_okD(1) [OF assms]
  by (auto simp: spec_of_def user_input_entries)

lemma submit_refines:
  assumes "world_ok p w"
  shows "spec_of (fire_submit r w) = spec_handle (abs_event p (Submit r)) (spec_of w)"
proof (cases "r = form (env w)")
  case True
  note f = world_okD(1) [OF assms]
  show ?thesis
  proof (cases "entries w")
    case None
    with f show ?thesis
      unfolding True fire_submit_not_form_turn [OF assms None]
      by (simp add: spec_of_def reported_def observation_defs)
  next
    case (Some es)
    with f fire_submit_form_observations [OF assms Some] show ?thesis
      unfolding True by (simp add: spec_of_def)
  qed
next
  case False
  with world_okD(1,7) [OF assms] show ?thesis
    unfolding fire_submit_other_turn [OF assms False]
    by (auto simp: spec_of_def observation_defs)
qed

lemma complete_refines:
  "spec_of (complete i out w) = spec_handle (abs_event p (Complete i out)) (spec_of w)"
proof (cases "i \<in> set (outstanding w)")
  case False
  then show ?thesis by (simp add: complete_not_pending_turn)
next
  case True
  show ?thesis
  proof (cases out)
    case (Failed e)
    note obs = complete_failed_observations [OF True, of e]
    show ?thesis
      unfolding Failed
      by (rule spec_state.equality) (simp_all add: True obs filter_neq_removeAll)
  next
    case (Succeeded rs)
    show ?thesis
    proof (cases "response (env w)")
      case None
      note obs = complete_succeeded_no_element_observations [OF True None, of rs]
      have "shown w = None" by (simp add: shown_def None)
      then show ?thesis
        unfolding Succeeded
        by (intro spec_state.equality) (simp_all add: True obs filter_neq_removeAll)
    next
      case (Some r)
      note obs = complete_succeeded_observations [OF True Some, of rs]
      have "shown w = Some (content w r)" by (simp add: shown_def Some)
      then show ?thesis
        unfolding Succeeded
        by (intro spec_state.equality) (simp_all add: True obs filter_neq_removeAll)
    qed
  qed
qed

lemma handle_refines:
  "world_ok p w \<Longrightarrow> spec_of (handle e w) = spec_handle (abs_event p e) (spec_of w)"
  by (cases e) (simp_all add: input_refines submit_refines complete_refines del: abs_event.simps)

lemma step_refines:
  "world_ok p w \<Longrightarrow> spec_of (step w e) = spec_step (spec_of w) (abs_event p e)"
  by (simp add: step_def spec_step_def handle_refines)

lemma enabled_refines:
  assumes "world_ok p w" and "enabled w e"
  shows "spec_enabled (spec_of w) (abs_event p e)"
  using assms world_okD(1,7) [OF assms(1)]
  by (cases e) (auto simp: entries_def)

section \<open>Runs\<close>

lemma run_refines:
  "world_ok p w \<Longrightarrow> spec_of (run w es) = spec_run (spec_of w) (map (abs_event p) es)"
proof (induction es arbitrary: w)
  case Nil
  show ?case by simp
next
  case (Cons e es)
  from Cons.prems have "world_ok p (step w e)" by (rule world_ok_step)
  then have "spec_of (run (step w e) es) = spec_run (spec_of (step w e)) (map (abs_event p) es)"
    by (rule Cons.IH)
  with Cons.prems show ?case by (simp add: step_refines)
qed

lemma run_enabled_refines:
  "world_ok p w \<Longrightarrow> run_enabled w es \<Longrightarrow> spec_run_enabled (spec_of w) (map (abs_event p) es)"
proof (induction es arbitrary: w)
  case Nil
  show ?case by simp
next
  case (Cons e es)
  from Cons.prems have "world_ok p (step w e)" and "run_enabled (step w e) es"
    by (simp_all add: world_ok_step)
  then have "spec_run_enabled (spec_of (step w e)) (map (abs_event p) es)"
    by (rule Cons.IH)
  with Cons.prems show ?case
    by (simp add: step_refines enabled_refines del: abs_event.simps)
qed

lemma trace_refines:
  assumes "world_ok p w" and "trace w es w'"
  shows "spec_of w' = spec_run (spec_of w) (map (abs_event p) es)"
    and "spec_run_enabled (spec_of w) (map (abs_event p) es)"
  using assms by (simp_all add: trace_iff_run run_refines run_enabled_refines)

lemma spec_ok_spec_of: "world_ok p w \<Longrightarrow> spec_ok (spec_of w)"
  using client_ok_id_bound [of "client (env w)"]
  by (auto simp: spec_ok_def world_ok_def observation_defs client_ok_def)

section \<open>Properties of runs, moved over from the machine\<close>

fun completion_text :: "browser_event \<Rightarrow> string option" where
  "completion_text (Complete i (Succeeded rs)) = Some (resp_message rs)"
| "completion_text _ = None"

definition form_events :: "listener page \<Rightarrow> browser_event list \<Rightarrow> spec_event list" where
  "form_events p es = map (abs_event p) es"

lemma written_abs_event [simp]: "written (abs_event p e) = completion_text e"
  by (cases e rule: completion_text.cases) simp_all

lemma map_written_form_events [simp]:
  "map written (form_events p es) = map completion_text es"
  by (simp add: form_events_def)

lemma form_events_simps [simp]:
  "form_events p [] = []"
  "form_events p (e # es) = abs_event p e # form_events p es"
  "form_events p (es @ fs) = form_events p es @ form_events p fs"
  by (simp_all add: form_events_def)

lemma SubmitElsewhere_in_form_events:
  "SubmitElsewhere \<in> set (form_events p es) \<longleftrightarrow>
     (\<exists>r. Submit r \<in> set es \<and> ids p ''form'' \<noteq> Some r \<and> entry_list (heap p r) \<noteq> None)"
proof (induction es)
  case Nil
  show ?case by simp
next
  case (Cons e es)
  then show ?case by (cases e) auto
qed

lemma run_refines_form_events:
  "world_ok p w \<Longrightarrow> spec_run (spec_of w) (form_events p es) = spec_of (run w es)"
  by (simp add: form_events_def run_refines)

lemma run_enabled_refines_form_events:
  "world_ok p w \<Longrightarrow> run_enabled w es \<Longrightarrow> spec_run_enabled (spec_of w) (form_events p es)"
  by (simp add: form_events_def run_enabled_refines)

lemmas run_transfer = run_refines_form_events run_enabled_refines_form_events

lemma run_shown:
  assumes "world_ok p w" and "run_enabled w es"
  shows "shown (run w es) =
     (case shown w of
        None \<Rightarrow> None
      | Some c \<Rightarrow> Some (case last_Some (map completion_text es) of None \<Rightarrow> c | Some m \<Rightarrow> m))"
  using spec_run_shown [OF run_transfer(2) [OF assms]]
  unfolding map_written_form_events
  by (simp add: run_transfer(1) [OF assms(1)])

lemma run_requests:
  assumes "world_ok p w" and "run_enabled w es" and "entries w = Some es0"
  shows "map req_message (requests (run w es)) =
           map req_message (requests w) @ submitted es0 (form_events p es)"
  using spec_run_requests [of "spec_of w" es0, OF _ run_transfer(2) [OF assms(1,2)]] assms(3)
  by (simp add: run_transfer(1) [OF assms(1)])

lemma run_logged:
  assumes "world_ok p w" and "run_enabled w es" and "entries w = Some es0"
  shows "logged (run w es) = logged w @ log_lines es0 (form_events p es)"
  using spec_run_log [of "spec_of w" es0, OF _ run_transfer(2) [OF assms(1,2)]] assms(3)
  by (simp add: run_transfer(1) [OF assms(1)])

lemma run_entries:
  assumes "world_ok p w" and "run_enabled w es" and "entries w = Some es0"
  shows "entries (run w es) = Some (entries_after es0 (form_events p es))"
  using spec_run_entries [of "spec_of w" es0, OF _ run_transfer(2) [OF assms(1,2)]] assms(3)
  by (simp add: run_transfer(1) [OF assms(1)])

lemma run_navigated_iff:
  assumes "world_ok p w"
  shows "navigated (page (run w es)) \<longleftrightarrow>
     navigated (page w) \<or>
     (\<exists>r. Submit r \<in> set es \<and> r \<noteq> form (env w) \<and> entry_list (heap p r) \<noteq> None)"
proof -
  have "navigated (page (run w es)) = s_gone (spec_run (spec_of w) (form_events p es))"
    by (simp add: run_transfer(1) [OF assms])
  then show ?thesis
    using world_okD(1) [OF assms]
    by (auto simp: spec_run_gone_iff SubmitElsewhere_in_form_events)
qed

lemma run_no_faults:
  assumes "world_ok p w" and "entries w \<noteq> None" and "response (env w) \<noteq> None"
  shows "uncaught (page (run w es)) = uncaught (page w)"
proof -
  from assms(3) have "shown w \<noteq> None" by (simp add: shown_def)
  with assms(2) have "s_faults (spec_run (spec_of w) (form_events p es)) = s_faults (spec_of w)"
    by (intro spec_run_no_faults) simp_all
  then have "length (uncaught (page (run w es))) = length (uncaught (page w))"
    by (simp add: run_transfer(1) [OF assms(1)])
  then show ?thesis by (rule js_errors_eqI)
qed

lemma run_accounting:
  assumes "world_ok p w" and "run_enabled w es" and "entries w \<noteq> None"
  shows "length (outstanding (run w es)) + resolutions (form_events p es) =
           length (outstanding w) + submits (form_events p es)"
  using spec_run_waiting [OF spec_ok_spec_of [OF assms(1)] _ run_transfer(2) [OF assms(1,2)]]
    assms(3)
  by (simp add: run_transfer(1) [OF assms(1)])

end
