(* ===== verification/Scenario.thy ===== *)
theory Scenario
  imports Refinement
begin

text \<open>
  Concrete documents on which the theorems are exercised: a form with one text
  control \<open>message\<close> holding \<open>hello\<close> and an empty element \<open>response\<close>; the same
  document without the element \<open>response\<close>, without the element \<open>form\<close>, and with the
  identifier \<open>form\<close> on an element that is no form. The lemmas evaluate the program
  on them; the witnesses of the properties use them.
\<close>

definition demo_form :: "listener element" where
  "demo_form = \<lparr>innerHTML = [], entry_list = Some [(''message'', ''hello'')], listeners = []\<rparr>"

definition demo_div :: "listener element" where
  "demo_div = \<lparr>innerHTML = [], entry_list = None, listeners = []\<rparr>"

definition demo_page :: "listener page" where
  "demo_page =
     \<lparr>ids = [''form'' \<mapsto> 0, ''response'' \<mapsto> 1],
      heap = (\<lambda>r. if r = 0 then demo_form else demo_div),
      console = [], navigated = False, uncaught = []\<rparr>"

definition demo_world :: world where
  "demo_world =
     \<lparr>page = addEventListener 0 ''submit'' SubmitListener demo_page,
      env = \<lparr>client = new_client, form = 0, response = Some 1\<rparr>\<rparr>"

definition hello :: echo_response where
  "hello = \<lparr>resp_message = ''hello''\<rparr>"

definition internal :: rpc_error where
  "internal = \<lparr>err_code = 13, err_message = ''internal''\<rparr>"

text \<open>The same document without the element \<open>response\<close>, and without the element \<open>form\<close>.\<close>

definition no_response_page :: "listener page" where
  "no_response_page = demo_page\<lparr>ids := [''form'' \<mapsto> 0]\<rparr>"

definition no_response_world :: world where
  "no_response_world =
     \<lparr>page = addEventListener 0 ''submit'' SubmitListener no_response_page,
      env = \<lparr>client = new_client, form = 0, response = None\<rparr>\<rparr>"

definition no_form_page :: "listener page" where
  "no_form_page = demo_page\<lparr>ids := [''response'' \<mapsto> 1]\<rparr>"

text \<open>The same document in which the identifier \<open>form\<close> names an element that is no form.\<close>

definition div_form_page :: "listener page" where
  "div_form_page = demo_page\<lparr>ids := [''form'' \<mapsto> 1, ''response'' \<mapsto> 1]\<rparr>"

definition div_form_world :: world where
  "div_form_world =
     \<lparr>page = addEventListener 1 ''submit'' SubmitListener div_form_page,
      env = \<lparr>client = new_client, form = 1, response = Some 1\<rparr>\<rparr>"

definition second :: echo_response where
  "second = \<lparr>resp_message = ''second''\<rparr>"

lemmas demo_defs = demo_form_def demo_div_def demo_page_def demo_world_def hello_def internal_def
  no_response_page_def no_response_world_def no_form_page_def second_def
  div_form_page_def div_form_world_def

lemma demo_pristine [simp]: "pristine demo_page"
  by (simp add: pristine_def demo_defs)

lemma demo_load [simp]: "load_module demo_page = returns demo_world"
  by (simp add: load_module_def getElementById_def demo_defs)

lemma demo_world_ok [simp]: "world_ok demo_page demo_world"
  by (rule world_ok_load [OF demo_pristine demo_load])

lemma demo_reachable [simp]: "reachable demo_page demo_world"
  by (rule reachable.loaded [OF demo_load])

lemma no_response_pristine [simp]: "pristine no_response_page"
  by (simp add: pristine_def demo_defs)

lemma no_response_load [simp]: "load_module no_response_page = returns no_response_world"
  by (simp add: load_module_def getElementById_def demo_defs)

lemma no_response_bindings [simp]:
  "form (env no_response_world) = 0" "response (env no_response_world) = None"
  by (simp_all add: no_response_world_def)

lemma demo_bindings [simp]:
  "form (env demo_world) = 0" "response (env demo_world) = Some 1"
  by (simp_all add: demo_world_def)

lemma demo_page_fields [simp]:
  "\<not> navigated (page demo_world)" "uncaught (page demo_world) = []"
  "entry_list (heap (page demo_world) 0) = Some [(''message'', ''hello'')]"
  "entry_list (heap (page demo_world) (Suc 0)) = None"
  by (simp_all add: demo_defs)

lemma demo_observations [simp]:
  "requests demo_world = []" "outstanding demo_world = []" "logged demo_world = []"
  "content demo_world r = []" "shown demo_world = Some []"
  "entries demo_world = Some [(''message'', ''hello'')]"
  by (simp_all add: observation_defs demo_defs)

lemma demo_reachable_run: "run_enabled demo_world es \<Longrightarrow> reachable demo_page (run demo_world es)"
  by (rule reachable_run [OF demo_load])

lemma demo_two_submits [simp]: "run_enabled demo_world [Submit 0, Submit 0]"
  by (simp add: js_defs observation_defs demo_defs Let_def)

lemmas demo_two_submits_reachable = demo_reachable_run [OF demo_two_submits]

lemma div_form_pristine [simp]: "pristine div_form_page"
  by (simp add: pristine_def demo_defs)

lemma div_form_load [simp]: "load_module div_form_page = returns div_form_world"
  by (simp add: load_module_def getElementById_def demo_defs)

lemma div_form_reachable [simp]: "reachable div_form_page div_form_world"
  by (rule reachable.loaded [OF div_form_load])

lemma div_form_observations [simp]:
  "form (env div_form_world) = 1" "entries div_form_world = None"
  "\<not> navigated (page div_form_world)" "uncaught (page div_form_world) = []"
  "requests div_form_world = []" "logged div_form_world = []"
  by (simp_all add: observation_defs demo_defs)

end
