(* ===== verification/Interleaving.thy ===== *)
theory Interleaving
  imports Invariants
begin

text \<open>
  The order in which the event loop delivers events that do not depend on each other.

  \<^item> \<open>complete_eq\<close> gives a completion in closed form: \<open>resolved\<close> takes the call out
    of the in-flight list and \<open>effect\<close> is what the callback of \<open>Handler\<close> does with
    the outcome. These two are devices of the proofs, not code of the program.
  \<^item> The \<open>_commute\<close> lemmas show which turns can be swapped: a failed and a successful
    completion of different calls, user input and any completion, a submit at the
    program's form and a successful completion of a call already in flight. Two
    successful completions do not commute (the later one wins), nor do two lines
    written to the console.
\<close>

section \<open>A completion in closed form\<close>

definition resolved :: "nat \<Rightarrow> world \<Rightarrow> world" where
  "resolved i w =
     w\<lparr>env := (env w)\<lparr>client := (client (env w))
       \<lparr>in_flight := filter (\<lambda>q. call_id q \<noteq> i) (in_flight (client (env w)))\<rparr>\<rparr>\<rparr>"

fun effect :: "rpc_outcome \<Rightarrow> world \<Rightarrow> world" where
  "effect (Failed e) w = log_error e w"
| "effect (Succeeded rs) w =
     (case response (env w) of
        None \<Rightarrow> reported TypeError w
      | Some r \<Rightarrow> w\<lparr>page := set_innerHTML r (getMessage rs) (page w)\<rparr>)"

lemma complete_eq:
  "complete i out w = (if i \<in> set (outstanding w) then effect out (resolved i w) else w)"
proof (cases "i \<in> set (outstanding w)")
  case False
  then show ?thesis by (simp add: complete_not_pending_turn)
next
  case True
  then obtain pc c' where t: "take_call i (client (env w)) = Some (pc, c')"
    by (rule take_call_pending)
  have r: "w\<lparr>env := (env w)\<lparr>client := c'\<rparr>\<rparr> = resolved i w"
    by (simp add: resolved_def take_call_rest [OF t])
  show ?thesis
  proof (cases out)
    case (Failed e)
    with True show ?thesis by (simp add: complete_failed_turn [OF t] r)
  next
    case (Succeeded rs)
    with True r show ?thesis
      by (cases "response (env w)")
        (simp_all add: complete_succeeded_turn [OF t] complete_succeeded_no_element_turn [OF t]
          resolved_def reported_def)
  qed
qed

lemma resolved_fields [simp]:
  "page (resolved i w) = page w"
  "form (env (resolved i w)) = form (env w)"
  "response (env (resolved i w)) = response (env w)"
  "requests (resolved i w) = requests w"
  "outstanding (resolved i w) = filter (\<lambda>j. j \<noteq> i) (outstanding w)"
  "logged (resolved i w) = logged w"
  "content (resolved i w) = content w"
  "entries (resolved i w) = entries w"
  by (simp_all add: resolved_def observation_defs pending_ids_def filter_map comp_def)

lemma effect_fields [simp]:
  "env (effect out w) = env w"
  "requests (effect out w) = requests w"
  "outstanding (effect out w) = outstanding w"
  "entries (effect out w) = entries w"
  "navigated (page (effect out w)) = navigated (page w)"
  "ids (page (effect out w)) = ids (page w)"
  by (cases out; cases "response (env w)";
      simp add: observation_defs log_error_def reported_def)+

lemma navigate_observations [simp]:
  "requests (w\<lparr>page := navigate (page w)\<rparr>) = requests w"
  "outstanding (w\<lparr>page := navigate (page w)\<rparr>) = outstanding w"
  "logged (w\<lparr>page := navigate (page w)\<rparr>) = logged w"
  "content (w\<lparr>page := navigate (page w)\<rparr>) = content w"
  "entries (w\<lparr>page := navigate (page w)\<rparr>) = entries w"
  by (simp_all add: observation_defs)

lemma resolved_resolved_commute: "resolved i (resolved j w) = resolved j (resolved i w)"
  by (simp add: resolved_def conj_commute)

lemma effect_resolved_commute: "effect out (resolved i w) = resolved i (effect out w)"
  by (cases out; cases "response (env w)")
    (simp_all add: resolved_def log_error_def reported_def)

lemma effect_failed_succeeded_commute:
  "effect (Failed e) (effect (Succeeded rs) w) = effect (Succeeded rs) (effect (Failed e) w)"
  by (cases "response (env w)")
    (simp_all add: log_error_def reported_def console_log_def set_innerHTML_def report_def)

section \<open>What a completion leaves alone\<close>

lemma complete_frame [simp]:
  "requests (complete i out w) = requests w"
  "entries (complete i out w) = entries w"
  "navigated (page (complete i out w)) = navigated (page w)"
  "form (env (complete i out w)) = form (env w)"
  "response (env (complete i out w)) = response (env w)"
  "outstanding (complete i out w) = filter (\<lambda>j. j \<noteq> i) (outstanding w)"
  by (auto simp: complete_eq filter_neq_removeAll)

lemma complete_twice: "complete i out' (complete i out w) = complete i out w"
  by (rule complete_not_pending_turn) simp

section \<open>Completions of different calls\<close>

lemma complete_failed_succeeded_commute:
  assumes "i \<noteq> j"
  shows "complete i (Failed e) (complete j (Succeeded rs) w) =
         complete j (Succeeded rs) (complete i (Failed e) w)"
proof -
  have "effect (Failed e) (resolved i (effect (Succeeded rs) (resolved j w))) =
        effect (Succeeded rs) (resolved j (effect (Failed e) (resolved i w)))"
    by (simp only: effect_resolved_commute resolved_resolved_commute [of i j]
        effect_failed_succeeded_commute)
  with assms show ?thesis
    by (simp add: complete_eq del: effect.simps)
qed

lemma step_complete: "step w (Complete i out) = (if navigated (page w) then w else complete i out w)"
  by (simp add: step_def)

lemma run_complete_failed_succeeded_commute:
  assumes "i \<noteq> j"
  shows "run w [Complete i (Failed e), Complete j (Succeeded rs)] =
         run w [Complete j (Succeeded rs), Complete i (Failed e)]"
  using complete_failed_succeeded_commute [OF assms, of e rs w]
  by (simp add: step_complete)

section \<open>Input and a completion\<close>

lemma user_input_resolved_commute: "user_input r es (resolved i w) = resolved i (user_input r es w)"
  by (simp add: user_input_def resolved_def)

lemma user_input_effect_commute: "user_input r es (effect out w) = effect out (user_input r es w)"
  by (cases out; cases "response (env w)")
    (simp_all add: user_input_def log_error_def reported_def page_commute)

lemma user_input_complete_commute:
  "user_input r es (complete i out w) = complete i out (user_input r es w)"
  by (simp add: complete_eq user_input_resolved_commute user_input_effect_commute)

lemma run_input_complete_commute:
  "run w [Input r es, Complete i out] = run w [Complete i out, Input r es]"
  by (simp add: step_def user_input_complete_commute)

section \<open>A submit and a successful completion\<close>

lemma send_request_resolved_commute:
  "i \<noteq> length (requests w) \<Longrightarrow> resolved i (send_request rq w) = send_request rq (resolved i w)"
  by (simp add: resolved_def send_request_def echo_def requests_def)

lemma send_request_effect_commute: "effect out (send_request rq w) = send_request rq (effect out w)"
  by (cases out; cases "response (env w)")
    (simp_all add: send_request_def log_error_def reported_def)

lemma log_sent_resolved_commute: "resolved i (log_sent m w) = log_sent m (resolved i w)"
  by (simp add: resolved_def log_sent_def)

lemma log_sent_effect_succeeded_commute:
  "effect (Succeeded rs) (log_sent m w) = log_sent m (effect (Succeeded rs) w)"
  by (cases "response (env w)")
    (simp_all add: log_sent_def reported_def console_log_def set_innerHTML_def report_def)

lemma reported_resolved_commute: "resolved i (reported e w) = reported e (resolved i w)"
  by (simp add: resolved_def reported_def)

lemma reported_effect_succeeded_commute:
  "effect (Succeeded rs) (reported e w) = reported e (effect (Succeeded rs) w)"
proof (cases "response (env w)")
  case None
  have "e = TypeError" by (rule js_error_eq)
  with None show ?thesis by (simp add: reported_def)
next
  case (Some r)
  then show ?thesis by (simp add: reported_def set_innerHTML_def report_def)
qed

lemma fire_submit_complete_succeeded_commute:
  assumes "world_ok p w" and "j \<in> set (outstanding w)"
  shows "fire_submit (form (env w)) (complete j (Succeeded rs) w) =
         complete j (Succeeded rs) (fire_submit (form (env w)) w)"
proof -
  let ?w' = "complete j (Succeeded rs) w"
  from assms(1) have ok': "world_ok p ?w'" by (rule world_ok_complete)
  have f: "form (env w) = form (env ?w')" by simp
  from assms have fresh: "j \<noteq> length (requests w)"
    using client_ok_id_bound [OF world_okD(5) [OF assms(1)], of j]
    by (auto simp: outstanding_def requests_def)
  show ?thesis
  proof (cases "entries w")
    case None
    then have "entries ?w' = None" by simp
    from fire_submit_not_form_turn [OF ok' this] fire_submit_not_form_turn [OF assms(1) None]
      assms(2)
    show ?thesis
      by (simp add: complete_eq reported_def [of _ w, symmetric] reported_resolved_commute
          reported_effect_succeeded_commute del: effect.simps)
  next
    case (Some es)
    then have "entries ?w' = Some es" by simp
    from fire_submit_form_turn [OF ok' this] fire_submit_form_turn [OF assms(1) Some]
      assms(2) fresh
    show ?thesis
      by (simp add: complete_eq send_request_resolved_commute send_request_effect_commute
          log_sent_resolved_commute log_sent_effect_succeeded_commute del: effect.simps)
  qed
qed

lemma run_submit_complete_succeeded_commute:
  assumes "world_ok p w" and "j \<in> set (outstanding w)"
  shows "run w [Submit (form (env w)), Complete j (Succeeded rs)] =
         run w [Complete j (Succeeded rs), Submit (form (env w))]"
proof (cases "navigated (page w)")
  case True
  then show ?thesis by (simp add: step_def)
next
  case False
  moreover from assms(1) have "navigated (page (fire_submit (form (env w)) w)) = navigated (page w)"
    by (cases "entries w")
      (simp_all add: fire_submit_not_form_turn fire_submit_form_observations reported_def)
  ultimately show ?thesis
    using fire_submit_complete_succeeded_commute [OF assms, of rs]
    by (simp add: step_def)
qed

section \<open>The turns of a loaded program, case by case\<close>

text \<open>Every turn of a state that satisfies the invariant is one of seven: nothing
  runs on a page that is gone; input; a submit at the program's form that sends; one
  that faults; a submit elsewhere that has no effect; one that navigates away; a
  completion.\<close>

lemma step_cases [consumes 1, case_names Gone Input Sent Fault Elsewhere Away Resolved]:
  assumes "world_ok p w"
  obtains
    (Gone) "navigated (page w)" and "step w e = w"
  | (Input) r v where "\<not> navigated (page w)" and "e = Input r v"
      and "step w e = user_input r v w"
  | (Sent) es where "\<not> navigated (page w)" and "e = Submit (form (env w))"
      and "entries w = Some es"
      and "step w e = send_request (build_request (FormData_get es ''message''))
             (log_sent (FormData_get es ''message'') w)"
  | (Fault) "\<not> navigated (page w)" and "e = Submit (form (env w))" and "entries w = None"
      and "step w e = reported TypeError w"
  | (Elsewhere) r where "\<not> navigated (page w)" and "e = Submit r" and "r \<noteq> form (env w)"
      and "entry_list (heap (page w) r) = None" and "step w e = w"
  | (Away) r where "\<not> navigated (page w)" and "e = Submit r" and "r \<noteq> form (env w)"
      and "entry_list (heap (page w) r) \<noteq> None"
      and "step w e = w\<lparr>page := navigate (page w)\<rparr>"
  | (Resolved) i out where "\<not> navigated (page w)" and "e = Complete i out"
      and "step w e = (if i \<in> set (outstanding w) then effect out (resolved i w) else w)"
proof (cases "navigated (page w)")
  case True
  then show ?thesis by (auto simp: step_def intro: Gone)
next
  case nav: False
  show ?thesis
  proof (cases e)
    case (Input r v)
    with nav show ?thesis by (auto simp: step_def intro: that(2))
  next
    case (Complete i out)
    with nav show ?thesis by (auto simp: step_def complete_eq intro: Resolved)
  next
    case (Submit r)
    show ?thesis
    proof (cases "r = form (env w)")
      case True
      with nav Submit assms show ?thesis
        by (cases "entries w")
          (auto simp: step_def fire_submit_not_form_turn fire_submit_form_turn
            intro: Sent Fault)
    next
      case False
      with nav Submit fire_submit_other_turn [OF assms False] show ?thesis
        by (cases "entry_list (heap (page w) r) = None")
          (auto simp: step_def intro: Elsewhere Away)
    qed
  qed
qed

end
