(* ===== verification/Quiescence.thy ===== *)
theory Quiescence
  imports Interleaving
begin

text \<open>
  What happens to the calls in flight when the transport resolves them and the user
  does nothing.

  \<^item> Every completion the browser can deliver takes one call out of the in-flight
    list and issues none (the program never retries), so a run of completions is at
    most as long as the list: \<open>run_completions_measure\<close>.
  \<^item> \<open>resolutions_of\<close> pairs calls with outcomes. Every call in flight can be
    resolved, in any order and with any outcome, and afterwards none is left:
    \<open>run_resolutions_of\<close>.
\<close>

section \<open>Completions use up the calls in flight\<close>

fun is_completion :: "browser_event \<Rightarrow> bool" where
  "is_completion (Complete i out) \<longleftrightarrow> True"
| "is_completion _ \<longleftrightarrow> False"

lemma step_completion_measure:
  assumes "distinct (outstanding w)" and "enabled w e" and "is_completion e"
  shows "Suc (length (outstanding (step w e))) = length (outstanding w)"
    and "distinct (outstanding (step w e))"
    and "requests (step w e) = requests w"
  using assms
  by (cases e; simp add: step_def filter_neq_removeAll length_removeAll_distinct
      distinct_removeAll)+

lemma run_completions_measure:
  assumes "distinct (outstanding w)" and "run_enabled w es" and "list_all is_completion es"
  shows "length es + length (outstanding (run w es)) = length (outstanding w) \<and>
         requests (run w es) = requests w"
  using assms
proof (induction es arbitrary: w)
  case Nil
  then show ?case by simp
next
  case (Cons e es)
  from Cons.prems have e: "enabled w e" "is_completion e" by simp_all
  from Cons.IH [OF step_completion_measure(2) [OF Cons.prems(1) e]] Cons.prems
    step_completion_measure(1,3) [OF Cons.prems(1) e]
  show ?case by simp
qed

section \<open>Resolving every call in flight\<close>

definition resolutions_of :: "nat list \<Rightarrow> rpc_outcome list \<Rightarrow> browser_event list" where
  "resolutions_of js outs = map (\<lambda>(i, out). Complete i out) (zip js outs)"

lemma resolutions_of_simps [simp]:
  "resolutions_of [] outs = []"
  "resolutions_of js [] = []"
  "resolutions_of (i # js) (out # outs) = Complete i out # resolutions_of js outs"
  by (simp_all add: resolutions_of_def)

lemma list_all_is_completion_resolutions_of [simp]:
  "list_all is_completion (resolutions_of js outs)"
  by (auto simp: resolutions_of_def list_all_iff)

lemma length_resolutions_of [simp]:
  "length (resolutions_of js outs) = min (length js) (length outs)"
  by (simp add: resolutions_of_def)

lemma run_resolutions_of:
  assumes "distinct js" and "set js \<subseteq> set (outstanding w)" and "\<not> navigated (page w)"
    and "length outs = length js"
  shows "run_enabled w (resolutions_of js outs) \<and>
         outstanding (run w (resolutions_of js outs)) = filter (\<lambda>j. j \<notin> set js) (outstanding w) \<and>
         requests (run w (resolutions_of js outs)) = requests w \<and>
         \<not> navigated (page (run w (resolutions_of js outs)))"
  using assms
proof (induction js arbitrary: outs w)
  case Nil
  then show ?case by simp
next
  case (Cons i js)
  from Cons.prems(4) obtain out outs' where outs: "outs = out # outs'" "length outs' = length js"
    by (cases outs) auto
  let ?w' = "step w (Complete i out)"
  from Cons.prems have w': "?w' = complete i out w" by (simp add: step_def)
  from Cons.prems have "set js \<subseteq> set (outstanding ?w')" by (auto simp: w')
  from Cons.IH [OF _ this _ outs(2)] Cons.prems
  show ?case
    by (simp add: outs w' conj_commute)
qed

end
