(* ===== verification/Footprint.thy ===== *)
theory Footprint
  imports Interleaving
begin

text \<open>
  What the program touches, in every state it can reach.

  \<^item> \<open>calls_plain\<close> says that every call in flight was issued the way line 38 of
    \<^verbatim>\<open>index.js\<close> issues it: with empty metadata and the completion callback.
    It holds of the new client and every turn keeps it.
  \<^item> The \<open>content_\<close> lemmas show that no turn writes the content of an element other
    than the one bound to \<open>response\<close>.
  \<^item> \<open>input_then_submit\<close> gives what a submit sends and logs after the user has
    edited the form: a function of the edited entries.
\<close>

section \<open>The calls the program issues\<close>

definition calls_plain :: "callback echo_client \<Rightarrow> bool" where
  "calls_plain c \<longleftrightarrow>
     list_all (\<lambda>pc. call_metadata pc = [] \<and> call_callback pc = EchoCallback) (in_flight c)"

lemma calls_plain_new_client [simp]: "calls_plain new_client"
  by (simp add: calls_plain_def new_client_def)

lemma calls_plain_send_request:
  "calls_plain (client (env w)) \<Longrightarrow> calls_plain (client (env (send_request rq w)))"
  by (simp add: calls_plain_def send_request_def echo_def)

lemma calls_plain_resolved:
  "calls_plain (client (env w)) \<Longrightarrow> calls_plain (client (env (resolved i w)))"
  by (simp add: calls_plain_def resolved_def list_all_iff)

lemma calls_plain_step:
  assumes "world_ok p w" and "calls_plain (client (env w))"
  shows "calls_plain (client (env (step w e)))"
  using assms
  by (cases rule: step_cases [where e = e])
    (simp_all add: calls_plain_send_request calls_plain_resolved)

lemma reachable_calls_plain:
  assumes "pristine p" and "reachable p w"
  shows "calls_plain (client (env w))"
  using assms(2)
proof (induction rule: reachable.induct)
  case (loaded w)
  then show ?case by (simp add: load_module_returnsD(3))
next
  case (stepped w e w')
  from stepped.hyps(1) assms(1) have "world_ok p w" by (simp add: reachable_world_ok)
  with stepped show ?case by (auto simp: browser_step_iff intro: calls_plain_step)
qed

section \<open>The elements the program writes\<close>

lemma content_effect_other:
  assumes "response (env w) \<noteq> Some r"
  shows "content (effect out w) r = content w r"
proof (cases out)
  case (Failed e)
  then show ?thesis by simp
next
  case (Succeeded rs)
  with assms show ?thesis
    by (cases "response (env w)") (auto simp: content_def reported_def)
qed

lemma content_step_other:
  assumes "world_ok p w" and "response (env w) \<noteq> Some r"
  shows "content (step w e) r = content w r"
  using assms
  by (cases rule: step_cases [where e = e]) (simp_all add: content_effect_other)

lemma content_run_other:
  assumes "world_ok p w" and "response (env w) \<noteq> Some r"
  shows "content (run w es) r = content w r"
  using assms
proof (induction es arbitrary: w)
  case Nil
  then show ?case by simp
next
  case (Cons e es)
  from Cons.prems(1) have ok: "world_ok p (step w e)" by (rule world_ok_step)
  from world_okD(2) [OF ok] world_okD(2) [OF Cons.prems(1)] Cons.prems(2)
  have "response (env (step w e)) \<noteq> Some r" by simp
  from Cons.IH [OF ok this] content_step_other [OF Cons.prems] show ?case by simp
qed

section \<open>What leaves the form\<close>

lemma input_then_submit:
  fixes es :: "(string \<times> string) list"
  assumes "world_ok p w" and "entries w \<noteq> None" and "\<not> navigated (page w)"
  defines "w' \<equiv> run w [Input (form (env w)) es, Submit (form (env w))]"
  shows "requests w' = requests w @ [build_request (FormData_get es ''message'')]"
    and "logged w' = logged w @ [[JStr ''message send from browser'', FormData_get es ''message'']]"
    and "uncaught (page w') = uncaught (page w)"
proof -
  let ?v = "user_input (form (env w)) es w"
  from assms(1) have ok: "world_ok p ?v" by (rule world_ok_user_input)
  from assms(2) have e: "entries ?v = Some es" by (simp add: user_input_entries)
  have f: "form (env w) = form (env ?v)" by simp
  from assms(3) have "w' = fire_submit (form (env ?v)) ?v"
    by (simp add: w'_def step_def)
  with fire_submit_form_observations [OF ok e]
  show "requests w' = requests w @ [build_request (FormData_get es ''message'')]"
    and "logged w' = logged w @ [[JStr ''message send from browser'', FormData_get es ''message'']]"
    and "uncaught (page w') = uncaught (page w)"
    by simp_all
qed

end
