(* ===== verification/History.thy ===== *)
theory History
  imports Refinement Interleaving
begin

text \<open>
  Properties of whole traces, in the manner of protocol traces: every completion
  answers a call that a submit issued.

  \<^item> \<open>sends w e\<close> says that the turn \<open>e\<close> issues a call in state \<open>w\<close>: it is a submit at
    the program's form, which is a form, on a page that is still there.
    \<open>requests_step\<close> and \<open>outstanding_step\<close> give the requests and the calls in flight
    after any turn.
  \<^item> \<open>completed es\<close> lists the names of the calls resolved in \<open>es\<close>. \<open>accounted\<close> is the
    bookkeeping invariant of a trace: the calls resolved are distinct, none of them is
    in flight, together with those in flight they are the names below the number of
    requests sent, and the calls in flight are listed in the order they were issued.
  \<^item> \<open>run_prefix\<close>: a request, once sent, keeps its place in the list of requests.
  \<^item> \<open>echoes\<close> is the assumption that the service answers a request with its own
    message; under it the text shown was sent (\<open>echoed_text_was_sent\<close>).

  All definitions here are devices of the proofs, not code of the program.
\<close>

section \<open>Which turns send\<close>

definition sends :: "world \<Rightarrow> browser_event \<Rightarrow> bool" where
  "sends w e \<longleftrightarrow> \<not> navigated (page w) \<and> e = Submit (form (env w)) \<and> entries w \<noteq> None"

lemma fire_submit_calls:
  assumes "world_ok p w"
  shows "requests (fire_submit r w) =
           requests w @ (if r = form (env w) \<and> entries w \<noteq> None
             then [build_request (FormData_get (the (entries w)) ''message'')] else []) \<and>
         outstanding (fire_submit r w) =
           outstanding w @
           (if r = form (env w) \<and> entries w \<noteq> None then [length (requests w)] else [])"
proof (cases "r = form (env w)")
  case True
  from assms show ?thesis
    by (cases "entries w")
      (simp_all add: True fire_submit_not_form_turn fire_submit_form_observations)
next
  case False
  with fire_submit_other_turn [OF assms False] show ?thesis
    by (simp add: observation_defs)
qed

lemmas requests_fire_submit = fire_submit_calls [THEN conjunct1]
lemmas outstanding_fire_submit = fire_submit_calls [THEN conjunct2]

lemma requests_step:
  assumes "world_ok p w"
  shows "requests (step w e) =
     requests w @ (if sends w e
                   then [build_request (FormData_get (the (entries w)) ''message'')] else [])"
  using assms
  by (cases e) (auto simp: step_def sends_def requests_fire_submit outstanding_fire_submit)

lemma outstanding_step:
  assumes "world_ok p w"
  shows "outstanding (step w e) =
     (if navigated (page w) then outstanding w
      else case e of
        Complete i out \<Rightarrow> filter (\<lambda>j. j \<noteq> i) (outstanding w)
      | _ \<Rightarrow> outstanding w @ (if sends w e then [length (requests w)] else []))"
  using assms
  by (cases e) (auto simp: step_def sends_def requests_fire_submit outstanding_fire_submit)

section \<open>The calls resolved in a run\<close>

fun completed :: "browser_event list \<Rightarrow> nat list" where
  "completed [] = []"
| "completed (Complete i out # es) = i # completed es"
| "completed (Input r v # es) = completed es"
| "completed (Submit r # es) = completed es"

lemma completed_append [simp]: "completed (es @ fs) = completed es @ completed fs"
  by (induction es rule: completed.induct) simp_all

definition accounted :: "nat list \<Rightarrow> world \<Rightarrow> bool" where
  "accounted done w \<longleftrightarrow>
     distinct done \<and> set done \<inter> set (outstanding w) = {} \<and>
     set done \<union> set (outstanding w) = {..<length (requests w)} \<and>
     sorted_wrt (<) (outstanding w)"

lemma accounted_load: "load_module p = returns w \<Longrightarrow> accounted [] w"
  by (simp add: accounted_def load_module_observations)

lemma accounted_step:
  assumes "world_ok p w" and "accounted done w" and "enabled w e"
  shows "accounted (done @ completed [e]) (step w e)"
proof (cases e)
  case (Input r v)
  with assms(2,3) show ?thesis by (simp add: accounted_def step_def)
next
  case (Submit r)
  from assms(2) have "\<forall>i \<in> set done \<union> set (outstanding w). i < length (requests w)"
    by (auto simp: accounted_def)
  with assms(2,3) show ?thesis
    by (auto simp: Submit accounted_def requests_step [OF assms(1)] outstanding_step [OF assms(1)]
        sorted_wrt_append lessThan_Suc)
next
  case (Complete i out)
  with assms(2,3) show ?thesis
    by (auto simp: accounted_def requests_step [OF assms(1)] outstanding_step [OF assms(1)]
        sends_def sorted_wrt_filter)
qed

lemma accounted_trace:
  assumes "world_ok p w0" and "accounted [] w0" and "trace w0 es w"
  shows "accounted (completed es) w"
  using assms(3)
proof (induction rule: trace.induct)
  case trace_nil
  from assms(2) show ?case by simp
next
  case (trace_snoc es w' e w'')
  from trace_snoc.hyps(1) assms(1) have "world_ok p w'" by (rule world_ok_trace)
  from accounted_step [OF this trace_snoc.IH, of e] trace_snoc.hyps(2) show ?case
    by (simp add: browser_step_iff)
qed

section \<open>Requests keep their place\<close>

lemma requests_step_prefix: "world_ok p w \<Longrightarrow> prefix (requests w) (requests (step w e))"
  by (simp add: requests_step)

lemma run_prefix:
  assumes "world_ok p w"
  shows "prefix (requests w) (requests (run w es))"
  using assms
proof (induction es arbitrary: w)
  case Nil
  show ?case by simp
next
  case (Cons e es)
  from Cons.prems have ok: "world_ok p (step w e)" by (rule world_ok_step)
  from Cons.IH [OF ok] requests_step_prefix [OF Cons.prems, of e]
  show ?case by (auto intro: prefix_order.trans)
qed

lemma prefix_nth: "prefix xs ys \<Longrightarrow> i < length xs \<Longrightarrow> ys ! i = xs ! i"
  by (auto simp: prefix_def nth_append)

section \<open>A service that echoes\<close>

text \<open>What the remote service answers is an input of the model. \<open>echoes rqs e\<close> is
  the assumption, on one event, that a successful completion carries the message of
  the request it answers; it says nothing of failures.\<close>

fun echoes :: "echo_request list \<Rightarrow> browser_event \<Rightarrow> bool" where
  "echoes rqs (Complete i (Succeeded rs)) \<longleftrightarrow>
     i < length rqs \<and> req_message (rqs ! i) = JStr (resp_message rs)"
| "echoes rqs (Complete i (Failed e)) \<longleftrightarrow> True"
| "echoes rqs (Input r v) \<longleftrightarrow> True"
| "echoes rqs (Submit r) \<longleftrightarrow> True"

lemma completion_text_SomeD:
  "completion_text e = Some m \<Longrightarrow> \<exists>i rs. e = Complete i (Succeeded rs) \<and> resp_message rs = m"
  by (cases e rule: completion_text.cases) simp_all

lemma echoed_text_was_sent:
  assumes "\<forall>e \<in> set es. echoes rqs e" and "last_Some (map completion_text es) = Some m"
  shows "JStr m \<in> req_message ` set rqs"
proof -
  from last_Some_in_set [OF assms(2)] obtain e where e: "e \<in> set es" "completion_text e = Some m"
    by auto
  from completion_text_SomeD [OF e(2)] obtain i rs
    where "e = Complete i (Succeeded rs)" and "resp_message rs = m"
    by blast
  with assms(1) e(1) have "i < length rqs" and "req_message (rqs ! i) = JStr m"
    by auto
  then show ?thesis
    by (metis image_eqI nth_mem)
qed

end
