(* ===== verification/Webpack_Config.thy ===== *)
theory Webpack_Config
  imports Prelude
begin

text \<open>
  The bundler's configuration, \<^verbatim>\<open>src/downstream/webpack.config.js\<close>: an object literal
  assigned to \<open>module.exports\<close>. The only computed value in it is the output path,
  \<open>__dirname + "/dist"\<close>, so the configuration is a function of the directory the file
  lies in. It has no run-time behaviour, and the bundler that reads it is not
  modelled: the theory records the configuration and proves nothing of it.
\<close>

record output_options =
  path :: string
  filename :: string

record resolve_options =
  extensions :: "string list"

record webpack_config =
  mode :: string
  entry :: string
  output_options :: output_options
  resolve_options :: resolve_options

definition module_exports :: "string \<Rightarrow> webpack_config" where
  "module_exports dirname =
     \<lparr>mode = ''development'',
      entry = ''./index.js'',
      output_options = \<lparr>path = dirname @ ''/dist'', filename = ''bundle.js''\<rparr>,
      resolve_options = \<lparr>extensions = [''.js'']\<rparr>\<rparr>"

end
