(* ===== verification/Spec2Isabelle.thy ===== *)
theory Spec2Isabelle
  imports Scenario Quiescence Footprint History Webpack_Config
begin

text \<open>
  \<^bold>\<open>A verified model of the gRPC-Web echo front end.\<close>

  The repository is a browser page that sends the text of a form field to a remote
  echo service through a generated RPC client and shows the answer. Its source is
  \<^verbatim>\<open>src/downstream/index.js\<close> (the program) and \<^verbatim>\<open>src/downstream/webpack.config.js\<close>
  (the bundler's configuration). This development models the program, the part of the
  browser and of the generated client it talks to, and the event loop that calls it,
  states what the page promises as an abstract machine, and proves that the program
  refines it: what the specification says of a submit, of a successful and of a
  failed completion, and of runs of many events.

  \<^bold>\<open>Parts of the program and the theories that model them.\<close>

  \<^item> \<open>Prelude\<close>: JavaScript values (\<open>js_value\<close>: \<open>null\<close> and strings), the fault
    \<open>TypeError\<close>, completions (\<open>returns\<close> a state or \<open>throws\<close>), element references,
    the fact collections \<open>js_defs\<close>, \<open>frame\<close> and \<open>inv_intros\<close>, and list lemmas.
  \<^item> \<open>Dom\<close>: the DOM surface the program consumes, as state: elements with
    \<open>innerHTML\<close>, a form's entry list and listeners; the document's identifiers; the
    console; \<open>getElementById\<close>, \<open>addEventListener\<close>, \<open>preventDefault\<close>,
    \<open>new_FormData\<close>, \<open>FormData_get\<close>, \<open>set_innerHTML\<close>, \<open>console_log\<close>.
  \<^item> \<open>Echo_Pb\<close>: the request and response value objects of \<^verbatim>\<open>proto/echo_pb.js\<close>
    (not among the sources; modelled from the specification's data model).
  \<^item> \<open>Echo_Client\<close>: the client of \<^verbatim>\<open>proto/echo_grpc_web_pb.js\<close> (not among the
    sources): its constructor, \<open>echo\<close>, the calls in flight and what was sent, with
    the invariant \<open>client_ok\<close>. Callbacks are a type parameter.
  \<^item> \<open>Diagnostic\<close>: the template literal of \<^verbatim>\<open>index.js\<close> lines 40 to 43,
    \<open>error_diagnostic\<close>. The conversion of \<open>err.code\<close> to a string that the literal
    calls for is the JavaScript engine's; \<open>number_to_string\<close> stands for it, defined
    with a decimal printer (\<open>string_of_nat\<close>, \<open>digit_char\<close>) that is not code of the
    repository.
  \<^item> \<open>Handler\<close>: \<^verbatim>\<open>index.js\<close> itself. \<open>load_module\<close> is the top level (lines 19 to
    31), \<open>showResponse\<close> lines 27 to 29, \<open>submit_listener\<close> lines 31 to 49,
    \<open>echo_callback\<close> lines 38 to 48; \<open>bindings\<close> are the top-level variables;
    \<open>read_message\<close>, \<open>log_sent\<close>, \<open>build_request\<close>, \<open>send_request\<close> and \<open>log_error\<close>
    are the statements of the two functions.
  \<^item> \<open>Browser\<close>: the event loop: \<open>Input\<close>, \<open>Submit\<close> and \<open>Complete\<close> events, dispatch
    to listeners with the default action, resolution of a call, as the function
    \<open>step\<close> and the relation \<open>browser_step\<close>, with \<open>trace\<close>, \<open>reachable\<close> and \<open>run\<close>.
  \<^item> \<open>Invariants\<close>: the invariant \<open>world_ok\<close> of a loaded program, and for each kind
    of event the state after the turn and the observations of it.
  \<^item> \<open>Abstract_Spec\<close>: what the page promises, as a machine over the observations
    alone (\<open>spec_state\<close>, \<open>spec_event\<close>, \<open>spec_step\<close>, \<open>spec_run\<close>), with closed forms
    of its runs: the output is the last value written, the requests are the messages
    held at the submits, the console grows by one line per submit and per failure.
  \<^item> \<open>Refinement\<close>: the abstraction \<open>spec_of\<close> of a world, the classification
    \<open>abs_event\<close> of an event, the lemma \<open>step_refines\<close> that one turn of the program
    is one step of the machine, and the run properties carried over to the program.
  \<^item> \<open>Interleaving\<close>: a completion in closed form (\<open>complete_eq\<close>), the turns that
    can be swapped (completions of different calls, input and a completion, a
    submit and a successful completion), and the case analysis \<open>step_cases\<close> of a
    turn.
  \<^item> \<open>Quiescence\<close>: completions use up the calls in flight
    (\<open>run_completions_measure\<close>), and every call in flight can be resolved
    (\<open>resolutions_of\<close>, \<open>run_resolutions_of\<close>).
  \<^item> \<open>Footprint\<close>: what the program touches: the calls it issues are plain
    (\<open>calls_plain\<close>) and it writes the content of the output element only.
  \<^item> \<open>History\<close>: what the properties of whole traces rest on: which turns send
    (\<open>sends\<close>), the calls resolved in a trace (\<open>completed\<close>), the bookkeeping
    invariant \<open>accounted\<close> of the calls, that a request keeps its place once sent
    (\<open>run_prefix\<close>), and the assumption \<open>echoes\<close> on the answers of the service.
  \<^item> \<open>Scenario\<close>: concrete documents, on which the witnesses evaluate the program.
  \<^item> \<open>Webpack_Config\<close>: the object exported by \<^verbatim>\<open>webpack.config.js\<close> as the record
    \<open>module_exports\<close> of the directory. It is a literal with no behaviour; it is
    recorded, and no theorem is stated of it.
  \<^item> This theory: the properties, each stated in words before its theorem.

  \<^bold>\<open>How state and operations correspond to the code.\<close> A \<open>world\<close> is the page and the
  program's bindings. Each function of the program takes the world and returns the
  world it leaves, or \<open>throws TypeError\<close> where JavaScript would (a property read of
  \<open>null\<close>, \<open>new FormData\<close> of something that is no form). The two closures are tags
  (\<open>SubmitListener\<close>, \<open>EchoCallback\<close>) applied by \<open>apply_listener\<close> and
  \<open>apply_callback\<close>. Observations of a world are \<open>content\<close> and \<open>shown\<close> (what the
  page displays), \<open>logged\<close> (the console), \<open>requests\<close> (what went to the network) and
  \<open>outstanding\<close> (calls whose callback has not run).

  \<^bold>\<open>Bounds.\<close> Nothing in the model is bounded or fuelled: every function is total and
  structurally or measure recursive. Status codes are integers of any size and are
  printed in decimal. JavaScript does so for integers below \<open>10\<^sup>2\<^sup>1\<close> and prints an
  exponent from there on, so what the theorems say of the text of a diagnostic holds
  of the program for codes below that bound; gRPC status codes have at most two
  digits.

  \<^bold>\<open>Not modelled.\<close> The wire codec and the HTTP transport (an outcome of a call is an
  input of the model), the remote service, HTML parsing of the text assigned to
  \<open>innerHTML\<close> (the model stores the markup as assigned), \<open>File\<close> entries of a form,
  and the bundler that reads the configuration. None of them is code of the
  repository, and the specification names them as opaque collaborators without
  saying what they compute, so there is no text to translate them from; the model
  takes their results as inputs.

  \<^bold>\<open>What the lemmas show.\<close> Of single turns: a submit sends one request with the
  field's value, a success shows the message, a failure logs the diagnostic and
  leaves the output alone, a success without an output element faults, a submit
  event at an element that is no form faults in the listener, the callback on
  every combination of its arguments, that no control of the form but those named
  \<open>message\<close> is sent, and a submit followed by the resolution of its call as one
  complete interaction. Of whole runs, by refinement of the machine: the form
  never navigates, the last successful completion wins (and a failure that arrives
  last does not), there is one request per submit, the console holds one line per
  submit and per failure, a well-formed page never faults, and an invariant holds
  of every reachable state. Of the order of events: which turns commute. Of the
  calls in flight: they are well formed, completions use them up, and all of them
  can be resolved. Of traces: every completion answers exactly one earlier submit
  and its request, and with a service that echoes the page shows nothing but what
  was submitted. Of the page: only the output element is written. Of loading: when
  it fails and what it establishes. Of the diagnostic: it determines the error;
  \<open>parse_diagnostic\<close> and \<open>int_of_string\<close> are readers written for this proof, not
  code of the program.

  \<^bold>\<open>Coverage.\<close> Lines 19 to 49 of \<^verbatim>\<open>index.js\<close> and all of \<^verbatim>\<open>webpack.config.js\<close> are
  modelled; lines 1 to 18 of \<^verbatim>\<open>index.js\<close> are the licence comment, and nothing else
  is in the sources.

  \<^bold>\<open>Assumptions and limits.\<close> The theorems about a loaded program assume a
  \<open>pristine\<close> document: no other script has registered a listener. The program has
  one listener and one callback, and the model has no way to say what a listener
  of another script does, so pages with such listeners are outside the model. The
  text assigned to \<open>innerHTML\<close> is stored as assigned; that a browser parses it as
  markup is recorded as a finding and not modelled. What the service answers is an
  input; where a theorem needs an echoing service it says so in a hypothesis
  (\<open>echoes\<close>). With this, everything the sources contain is modelled.
\<close>

section \<open>A submit issues exactly one call\<close>

text \<open>
  C1. In any state the loaded program can reach from a pristine document, a submit
  event at the program's form, whose entry list at that moment is \<open>es\<close>, sends exactly
  one request, and the request's message is what \<open>FormData.get("message")\<close> returns
  for \<open>es\<close>: the first value of that name, or \<open>null\<close>. The call is in flight under the
  next free name, one line is logged, what the page shows is unchanged, the browser
  does not navigate and no fault is raised.
\<close>

theorem submit_sends_one_request:
  assumes "pristine p" and "reachable p w"
    and "enabled w (Submit (form (env w)))"
    and "entries w = Some es"
  shows "requests (step w (Submit (form (env w)))) =
           requests w @ [\<lparr>req_message = FormData_get es ''message''\<rparr>] \<and>
         outstanding (step w (Submit (form (env w)))) = outstanding w @ [length (requests w)] \<and>
         logged (step w (Submit (form (env w)))) =
           logged w @ [[JStr ''message send from browser'', FormData_get es ''message'']] \<and>
         content (step w (Submit (form (env w)))) = content w \<and>
         \<not> navigated (page (step w (Submit (form (env w))))) \<and>
         uncaught (page (step w (Submit (form (env w))))) = uncaught (page w)"
proof -
  from assms(1,2) have ok: "world_ok p w" by (rule reachable_world_ok)
  from assms(3) have "step w (Submit (form (env w))) = fire_submit (form (env w)) w"
    and "\<not> navigated (page w)"
    by (simp_all add: step_def)
  with fire_submit_form_observations [OF ok assms(4)] show ?thesis
    by (simp add: build_request_eq)
qed

theorem submit_sends_one_request_witness:
  "requests (step demo_world (Submit 0)) = [\<lparr>req_message = JStr ''hello''\<rparr>] \<and>
   outstanding (step demo_world (Submit 0)) = [0] \<and>
   logged (step demo_world (Submit 0)) = [[JStr ''message send from browser'', JStr ''hello'']] \<and>
   \<not> navigated (page (step demo_world (Submit 0)))"
  using submit_sends_one_request
    [OF demo_pristine demo_reachable, of "[(''message'', ''hello'')]"]
  by simp

section \<open>A successful completion shows the message\<close>

text \<open>
  C2. When the transport resolves a call in flight with a response and the page has
  an element \<open>response\<close>, the content of that element becomes exactly the response's
  message. No other element changes, nothing is logged, nothing is sent, and the
  call is no longer in flight.
\<close>

theorem success_shows_message:
  assumes "enabled w (Complete i (Succeeded rs))" and "response (env w) = Some r"
  shows "shown (step w (Complete i (Succeeded rs))) = Some (resp_message rs) \<and>
         content (step w (Complete i (Succeeded rs))) = (content w)(r := resp_message rs) \<and>
         logged (step w (Complete i (Succeeded rs))) = logged w \<and>
         requests (step w (Complete i (Succeeded rs))) = requests w \<and>
         outstanding (step w (Complete i (Succeeded rs))) = filter (\<lambda>j. j \<noteq> i) (outstanding w) \<and>
         uncaught (page (step w (Complete i (Succeeded rs)))) = uncaught (page w)"
proof -
  from assms(1) have i: "i \<in> set (outstanding w)"
    and s: "step w (Complete i (Succeeded rs)) = complete i (Succeeded rs) w"
    by (simp_all add: step_def)
  from complete_succeeded_observations [OF i assms(2), of rs] show ?thesis
    unfolding s by simp
qed

theorem success_shows_message_witness:
  "shown (run demo_world [Submit 0, Submit 0, Complete 0 (Succeeded hello),
     Complete 1 (Succeeded second)]) = Some ''second'' \<and>
   outstanding (run demo_world [Submit 0, Submit 0, Complete 0 (Succeeded hello),
     Complete 1 (Succeeded second)]) = []"
  using success_shows_message
    [of "run demo_world [Submit 0, Submit 0, Complete 0 (Succeeded hello)]" 1 second 1]
  by (simp add: js_defs observation_defs demo_defs Let_def)

section \<open>A failed completion leaves the output alone\<close>

text \<open>
  C3. When the transport resolves a call in flight with an error, the content of
  every element is what it was, and exactly one line is added to the console: the
  diagnostic, which contains the error's code in decimal and the error's message.
  Nothing is sent again: the request list is unchanged and the call is no longer in
  flight.
\<close>

theorem failure_keeps_output:
  assumes "enabled w (Complete i (Failed e))"
  shows "content (step w (Complete i (Failed e))) = content w \<and>
         shown (step w (Complete i (Failed e))) = shown w \<and>
         logged (step w (Complete i (Failed e))) = logged w @ [[JStr (error_diagnostic e)]] \<and>
         sublist (number_to_string (err_code e)) (error_diagnostic e) \<and>
         sublist (err_message e) (error_diagnostic e) \<and>
         requests (step w (Complete i (Failed e))) = requests w \<and>
         outstanding (step w (Complete i (Failed e))) = filter (\<lambda>j. j \<noteq> i) (outstanding w)"
proof -
  from assms have i: "i \<in> set (outstanding w)"
    and s: "step w (Complete i (Failed e)) = complete i (Failed e) w"
    by (simp_all add: step_def)
  have "sublist (number_to_string (err_code e)) (error_diagnostic e)"
    and "sublist (err_message e) (error_diagnostic e)"
    by (rule diagnostic_contains_code, rule diagnostic_contains_message)
  with complete_failed_observations [OF i, of e] show ?thesis
    unfolding s by simp
qed

theorem failure_keeps_output_witness:
  "shown (run demo_world [Submit 0, Complete 0 (Failed internal)]) = Some [] \<and>
   logged (run demo_world [Submit 0, Complete 0 (Failed internal)]) =
     [[JStr ''message send from browser'', JStr ''hello''],
      [JStr (''Unexpected error for sayHello: code = 13, message = '' @ [dquote] @
             ''internal'' @ [dquote])]] \<and>
   sublist ''13'' (error_diagnostic internal) \<and> sublist ''internal'' (error_diagnostic internal)"
  using failure_keeps_output [of "step demo_world (Submit 0)" 0 internal]
  by (simp add: js_defs observation_defs demo_defs Let_def error_diagnostic_def
      number_to_string_def string_of_nat_large digit_char_def)

section \<open>The form never navigates\<close>

text \<open>
  C4. After the program has loaded into a pristine document, the browser navigates
  away during a run exactly when a submit event is fired at a form other than the
  program's: the listener has prevented the default action of every submit at the
  program's own form, whatever the form holds and whether or not the listener
  faults.
\<close>

theorem form_submit_never_navigates:
  assumes "pristine p" and "load_module p = returns w0"
  shows "navigated (page (run w0 es)) \<longleftrightarrow>
           (\<exists>r. Submit r \<in> set es \<and> r \<noteq> form (env w0) \<and> entry_list (heap p r) \<noteq> None)"
proof -
  from assms have "world_ok p w0" by (rule world_ok_load)
  moreover from assms have "\<not> navigated (page w0)"
    by (simp add: load_module_observations pristine_def)
  ultimately show ?thesis by (simp add: run_navigated_iff)
qed

theorem form_submit_never_navigates_witness:
  "\<not> navigated (page (run demo_world
       [Submit 0, Input 0 [(''other'', ''x'')], Submit 0, Complete 1 (Failed internal), Submit 0]))"
  using form_submit_never_navigates [OF demo_pristine demo_load,
      of "[Submit 0, Input 0 [(''other'', ''x'')], Submit 0, Complete 1 (Failed internal), Submit 0]"]
  by simp

section \<open>The last successful completion wins\<close>

text \<open>
  C5. After any run the browser can produce from the loaded program, the output
  element shows the message of the last completion that succeeded, whatever the
  order in which the calls were issued, and the text the document had at load time
  when no completion has succeeded.
\<close>

theorem last_completion_wins:
  assumes "pristine p" and "load_module p = returns w0" and "trace w0 es w"
    and "ids p ''response'' = Some r"
  shows "shown w =
     Some (case last_Some (map completion_text es) of None \<Rightarrow> innerHTML (heap p r) | Some m \<Rightarrow> m)"
proof -
  from assms(1,2) have ok: "world_ok p w0" by (rule world_ok_load)
  from assms(3) have en: "run_enabled w0 es" and w: "w = run w0 es"
    by (simp_all add: trace_iff_run)
  from assms(2,4) have "shown w0 = Some (innerHTML (heap p r))"
    by (simp add: shown_def load_module_returnsD(2) load_module_observations(4))
  with run_shown [OF ok en] show ?thesis by (simp add: w)
qed

text \<open>
  The theorem at two runs with two calls in flight. In the first the call issued
  first resolves last and succeeds, and its message is shown. In the second it
  resolves last and fails, and the output keeps the message of the earlier
  completion: the completion that arrives last determines the output only when it
  succeeds.
\<close>

theorem last_completion_wins_witness:
  "shown (run demo_world
     [Submit 0, Submit 0, Complete 1 (Succeeded second), Complete 0 (Succeeded hello)]) =
   Some ''hello'' \<and>
   shown (run demo_world
     [Submit 0, Submit 0, Complete 1 (Succeeded second), Complete 0 (Failed internal)]) =
   Some ''second''"
  using last_completion_wins [OF demo_pristine demo_load, of
      "[Submit 0, Submit 0, Complete 1 (Succeeded second), Complete 0 (Succeeded hello)]"
      "run demo_world
         [Submit 0, Submit 0, Complete 1 (Succeeded second), Complete 0 (Succeeded hello)]" 1]
    last_completion_wins [OF demo_pristine demo_load, of
      "[Submit 0, Submit 0, Complete 1 (Succeeded second), Complete 0 (Failed internal)]"
      "run demo_world
         [Submit 0, Submit 0, Complete 1 (Succeeded second), Complete 0 (Failed internal)]" 1]
  by (simp add: trace_iff_run js_defs observation_defs demo_defs Let_def)

section \<open>One request per submit, in order, never repeated\<close>

text \<open>
  C6. After any run the browser can produce from the loaded program, the messages
  sent to the service are exactly the messages the form held at each submit, in the
  order of the submits: one request per submit, none dropped, merged, repeated or
  retried after a failure. Every call sent is either still in flight or has been
  resolved, exactly once.
\<close>

theorem one_request_per_submit:
  assumes "pristine p" and "load_module p = returns w0" and "trace w0 es w"
    and "entries w0 = Some es0"
  shows "map req_message (requests w) = submitted es0 (form_events p es) \<and>
         length (requests w) = submits (form_events p es) \<and>
         length (outstanding w) + resolutions (form_events p es) = length (requests w)"
proof -
  from assms(1,2) have ok: "world_ok p w0" by (rule world_ok_load)
  from assms(3) have en: "run_enabled w0 es" and w: "w = run w0 es"
    by (simp_all add: trace_iff_run)
  from assms(2) have init: "requests w0 = []" "outstanding w0 = []"
    by (simp_all add: load_module_observations)
  have rq: "map req_message (requests w) = submitted es0 (form_events p es)"
    using run_requests [OF ok en assms(4)] by (simp add: w init)
  then have "length (requests w) = submits (form_events p es)"
    using length_submitted [of es0 "form_events p es"] by (metis length_map)
  moreover have "length (outstanding w) + resolutions (form_events p es) =
      submits (form_events p es)"
    using run_accounting [OF ok en] assms(4) by (simp add: w init)
  ultimately show ?thesis using rq by simp
qed

theorem one_request_per_submit_witness:
  "map req_message (requests (run demo_world
     [Submit 0, Input 0 [(''message'', ''again'')], Submit 0, Complete 0 (Failed internal),
      Input 0 [], Submit 0])) =
   [JStr ''hello'', JStr ''again'', JNull]"
  using one_request_per_submit [OF demo_pristine demo_load, of
      "[Submit 0, Input 0 [(''message'', ''again'')], Submit 0, Complete 0 (Failed internal),
        Input 0 [], Submit 0]"
      "run demo_world
         [Submit 0, Input 0 [(''message'', ''again'')], Submit 0, Complete 0 (Failed internal),
          Input 0 [], Submit 0]"
      "[(''message'', ''hello'')]"]
  by (simp add: trace_iff_run js_defs observation_defs demo_defs Let_def)

section \<open>The console\<close>

text \<open>
  C7. After any run the browser can produce from the loaded program, the console
  holds what it held at load time followed by one line per submit (the fixed text
  and the message sent) and one diagnostic per failed completion, in the order of
  the events, and nothing else: a successful completion logs nothing.
\<close>

theorem console_lines:
  assumes "pristine p" and "load_module p = returns w0" and "trace w0 es w"
    and "entries w0 = Some es0"
  shows "logged w = console p @ log_lines es0 (form_events p es) \<and>
         length (logged w) =
           length (console p) + submits (form_events p es) + failures (form_events p es)"
proof -
  from assms(1,2) have ok: "world_ok p w0" by (rule world_ok_load)
  from assms(3) have en: "run_enabled w0 es" and w: "w = run w0 es"
    by (simp_all add: trace_iff_run)
  from run_logged [OF ok en assms(4)] assms(2)
  have "logged w = console p @ log_lines es0 (form_events p es)"
    by (simp add: w load_module_observations)
  then show ?thesis by (simp add: length_log_lines)
qed

theorem console_lines_witness:
  "logged (run demo_world [Submit 0, Complete 0 (Succeeded hello), Submit 0,
     Complete 1 (Failed internal)]) =
   [[JStr ''message send from browser'', JStr ''hello''],
    [JStr ''message send from browser'', JStr ''hello''],
    [JStr (error_diagnostic internal)]]"
  using console_lines [OF demo_pristine demo_load, of
      "[Submit 0, Complete 0 (Succeeded hello), Submit 0, Complete 1 (Failed internal)]"
      "run demo_world [Submit 0, Complete 0 (Succeeded hello), Submit 0,
         Complete 1 (Failed internal)]"
      "[(''message'', ''hello'')]"]
  by (simp add: trace_iff_run js_defs observation_defs demo_defs Let_def)

section \<open>The program implements the specification machine\<close>

text \<open>
  C8. The program loaded into a pristine document refines the machine of
  \<open>Abstract_Spec\<close>: its initial state is read as the machine's initial state (nothing
  sent, nothing in flight, no fault, not navigated), after every list of events the
  state of the program is read as the state the machine reaches on the classified
  events, and a list of events the browser can produce is one the machine accepts.
\<close>

theorem program_refines_spec:
  assumes "pristine p" and "load_module p = returns w0"
  shows "spec_of w0 =
           \<lparr>s_entries = entry_list (heap p (form (env w0))),
            s_shown = map_option (\<lambda>r. innerHTML (heap p r)) (ids p ''response''),
            s_requests = [], s_waiting = [], s_log = console p, s_faults = 0,
            s_gone = False\<rparr> \<and>
         spec_of (run w0 es) = spec_run (spec_of w0) (form_events p es) \<and>
         (run_enabled w0 es \<longrightarrow> spec_run_enabled (spec_of w0) (form_events p es))"
proof -
  from assms have ok: "world_ok p w0" by (rule world_ok_load)
  from assms have "spec_of w0 =
      \<lparr>s_entries = entry_list (heap p (form (env w0))),
       s_shown = map_option (\<lambda>r. innerHTML (heap p r)) (ids p ''response''),
       s_requests = [], s_waiting = [], s_log = console p, s_faults = 0, s_gone = False\<rparr>"
    by (intro spec_state.equality)
      (simp_all add: load_module_observations load_module_returnsD(2) shown_def pristine_def
        option.map_comp comp_def cong: option.map_cong)
  with run_transfer [OF ok] show ?thesis by simp
qed

theorem program_refines_spec_witness:
  "spec_of (run demo_world [Submit 0, Complete 0 (Succeeded hello)]) =
     \<lparr>s_entries = Some [(''message'', ''hello'')], s_shown = Some ''hello'',
      s_requests = [JStr ''hello''], s_waiting = [],
      s_log = [[JStr ''message send from browser'', JStr ''hello'']], s_faults = 0,
      s_gone = False\<rparr>"
  using program_refines_spec [OF demo_pristine demo_load, of
      "[Submit 0, Complete 0 (Succeeded hello)]"]
  by (simp add: spec_step_def demo_page_def demo_form_def demo_div_def hello_def)

section \<open>No fault on a well-formed page\<close>

text \<open>
  C9. When the document has a form \<open>form\<close> and an element \<open>response\<close>, no event ever
  makes the program fault: after any list of events no uncaught fault is pending.
\<close>

theorem no_fault_on_wellformed_page:
  assumes "pristine p" and "load_module p = returns w0"
    and "entries w0 \<noteq> None" and "ids p ''response'' \<noteq> None"
  shows "uncaught (page (run w0 es)) = []"
proof -
  from assms(1,2) have ok: "world_ok p w0" by (rule world_ok_load)
  from assms(2,4) have "response (env w0) \<noteq> None"
    by (simp add: load_module_returnsD(2))
  from run_no_faults [OF ok assms(3) this, of es] assms(1,2) show ?thesis
    by (simp add: load_module_observations pristine_def)
qed

theorem no_fault_on_wellformed_page_witness:
  "uncaught (page (run demo_world
     [Submit 0, Complete 0 (Succeeded hello), Complete 7 (Failed internal), Submit 1])) = []"
  using no_fault_on_wellformed_page [OF demo_pristine demo_load, of
      "[Submit 0, Complete 0 (Succeeded hello), Complete 7 (Failed internal), Submit 1]"]
  by (simp add: demo_page_def)

section \<open>Loading\<close>

text \<open>
  C10. The script fails at load time exactly when the document has no element
  \<open>form\<close>: reading \<open>addEventListener\<close> of \<open>null\<close> throws, and no listener is ever
  registered. Otherwise it loads, also when the element \<open>response\<close> is missing: the
  bindings name the elements found, the submit listener is appended to the
  listeners of \<open>form\<close>, the client talks to \<open>http://localhost:50052\<close> with no
  credentials and no options, and nothing has been sent or shown.
\<close>

theorem load_module_outcome:
  "(ids p ''form'' = None \<longrightarrow> load_module p = throws TypeError) \<and>
   (\<forall>f. ids p ''form'' = Some f \<longrightarrow>
      (\<exists>w. load_module p = returns w \<and> form (env w) = f \<and>
           response (env w) = ids p ''response'' \<and>
           listeners (heap (page w) f) = listeners (heap p f) @ [(''submit'', SubmitListener)] \<and>
           hostname (client (env w)) = ''http://localhost:50052'' \<and>
           credentials (client (env w)) = JNull \<and> options (client (env w)) = JNull \<and>
           requests w = [] \<and> outstanding w = [] \<and> content w = (\<lambda>r. innerHTML (heap p r)) \<and>
           logged w = console p))"
  by (auto simp: load_module_throws_iff load_module_returns observation_defs endpoint_def)

theorem load_module_outcome_witness:
  "load_module no_form_page = throws TypeError \<and>
   (\<exists>w. load_module demo_page = returns w \<and> form (env w) = 0 \<and> response (env w) = Some 1)"
  using load_module_outcome [of no_form_page] load_module_outcome [of demo_page]
  by (auto simp: demo_defs)

section \<open>A success without an output element\<close>

text \<open>
  C11. When the document has no element \<open>response\<close>, a successful completion faults
  inside \<open>showResponse\<close>: one \<open>TypeError\<close> is left uncaught, nothing is shown and
  nothing is logged, and the call is no longer in flight. The missing element is
  not noticed before the first response arrives.
\<close>

theorem success_without_output_element:
  assumes "enabled w (Complete i (Succeeded rs))" and "response (env w) = None"
  shows "uncaught (page (step w (Complete i (Succeeded rs)))) = uncaught (page w) @ [TypeError] \<and>
         content (step w (Complete i (Succeeded rs))) = content w \<and>
         shown (step w (Complete i (Succeeded rs))) = None \<and>
         logged (step w (Complete i (Succeeded rs))) = logged w \<and>
         requests (step w (Complete i (Succeeded rs))) = requests w \<and>
         outstanding (step w (Complete i (Succeeded rs))) = filter (\<lambda>j. j \<noteq> i) (outstanding w)"
proof -
  from assms(1) have i: "i \<in> set (outstanding w)"
    and s: "step w (Complete i (Succeeded rs)) = complete i (Succeeded rs) w"
    by (simp_all add: step_def)
  from complete_succeeded_no_element_observations [OF i assms(2), of rs] show ?thesis
    unfolding s by simp
qed

theorem success_without_output_element_witness:
  "load_module no_response_page = returns no_response_world \<and>
   uncaught (page (run no_response_world [Submit 0, Complete 0 (Succeeded hello)])) = [TypeError] \<and>
   logged (run no_response_world [Submit 0, Complete 0 (Succeeded hello)]) =
     [[JStr ''message send from browser'', JStr ''hello'']]"
  using success_without_output_element [of "step no_response_world (Submit 0)" 0 hello]
  by (simp add: js_defs observation_defs demo_defs Let_def)

section \<open>The diagnostic carries the error in full\<close>

text \<open>
  C12. The diagnostic line of the error branch determines the error: reading the
  line back with \<open>parse_diagnostic\<close> returns the code and the message that were
  printed, and two errors print the same line only when they are the same error.
\<close>

theorem diagnostic_roundtrip:
  "parse_diagnostic (error_diagnostic err) = Some err \<and>
   (error_diagnostic err = error_diagnostic err' \<longleftrightarrow> err = err')"
proof -
  have rt: "parse_diagnostic (error_diagnostic e) = Some e" for e
    by (simp add: parse_diagnostic_def error_diagnostic_parts)
  then have "error_diagnostic err = error_diagnostic err' \<Longrightarrow> err = err'"
    by (metis option.inject)
  with rt show ?thesis by blast
qed

section \<open>What holds of every reachable state\<close>

text \<open>
  C13. In every state the loaded program can reach from a pristine document, the
  bindings name the elements found at load time, the submit listener is registered
  exactly once on the program's form and no other element has a listener (no event
  registers it again), the client still talks to the endpoint it was constructed
  for, and the calls in flight have distinct names, each naming a request that was
  sent.
\<close>

theorem reachable_state_invariant:
  assumes "pristine p" and "reachable p w"
  shows "ids p ''form'' = Some (form (env w)) \<and>
         response (env w) = ids p ''response'' \<and>
         listeners (heap (page w) (form (env w))) = [(''submit'', SubmitListener)] \<and>
         (\<forall>r. r \<noteq> form (env w) \<longrightarrow> listeners (heap (page w) r) = []) \<and>
         hostname (client (env w)) = ''http://localhost:50052'' \<and>
         distinct (outstanding w) \<and>
         (\<forall>i \<in> set (outstanding w). i < length (requests w))"
proof -
  from assms have ok: "world_ok p w" by (rule reachable_world_ok)
  from world_okD(5) [OF ok] have "distinct (outstanding w)"
    and "\<forall>i \<in> set (outstanding w). i < length (requests w)"
    by (auto simp: outstanding_def requests_def client_ok_id_bound) (simp add: client_ok_def)
  with world_okD(1-4,6) [OF ok] show ?thesis
    by (simp add: endpoint_def)
qed

theorem reachable_state_invariant_witness:
  "listeners (heap (page demo_world) 0) = [(''submit'', SubmitListener)] \<and>
   listeners (heap (page demo_world) 1) = [] \<and>
   response (env demo_world) = Some 1 \<and> outstanding demo_world = []"
  using reachable_state_invariant [OF demo_pristine demo_reachable]
  by (simp add: demo_defs observation_defs js_defs)

section \<open>One interaction, from the submit to the callback\<close>

text \<open>
  C14. A submit at the program's form followed by the resolution of the call it
  issued is one complete interaction: the browser can deliver the resolution, the
  request carries the value of the field, the callback that runs is the one this
  submit registered, and afterwards the output shows the response's message when the
  call succeeded and is unchanged when it failed; the console has the line of the
  submit and, after a failure, the diagnostic; the calls that were in flight before
  still are.
\<close>

theorem submit_then_outcome:
  assumes "pristine p" and "reachable p w" and "enabled w (Submit (form (env w)))"
    and "entries w = Some es" and "response (env w) = Some r"
  shows "run_enabled w [Submit (form (env w)), Complete (length (requests w)) out] \<and>
         shown (run w [Submit (form (env w)), Complete (length (requests w)) out]) =
           (case out of Succeeded rs \<Rightarrow> Some (resp_message rs) | Failed e \<Rightarrow> shown w) \<and>
         logged (run w [Submit (form (env w)), Complete (length (requests w)) out]) =
           logged w @ [[JStr ''message send from browser'', FormData_get es ''message'']] @
           (case out of Succeeded rs \<Rightarrow> [] | Failed e \<Rightarrow> [[JStr (error_diagnostic e)]]) \<and>
         requests (run w [Submit (form (env w)), Complete (length (requests w)) out]) =
           requests w @ [\<lparr>req_message = FormData_get es ''message''\<rparr>] \<and>
         outstanding (run w [Submit (form (env w)), Complete (length (requests w)) out]) =
           outstanding w"
proof -
  let ?n = "length (requests w)" and ?w' = "step w (Submit (form (env w)))"
  from assms(1,2) have ok: "world_ok p w" by (rule reachable_world_ok)
  from assms(3) have s: "?w' = fire_submit (form (env w)) w" and nav: "\<not> navigated (page w)"
    by (simp_all add: step_def)
  note obs = fire_submit_form_observations [OF ok assms(4), folded s]
  have fresh: "?n \<notin> set (outstanding w)"
    using client_ok_id_bound [OF world_okD(5) [OF ok], of ?n]
    by (auto simp: outstanding_def requests_def)
  from nav obs(7)
  have c: "run w [Submit (form (env w)), Complete ?n out] = complete ?n out ?w'"
    by (simp add: step_def)
  from ok have "world_ok p ?w'" by (rule world_ok_step)
  from world_okD(2) [OF this] world_okD(2) [OF ok] assms(5)
  have r: "response (env ?w') = Some r" by simp
  have i: "?n \<in> set (outstanding ?w')" by (simp add: obs)
  from assms(3) nav i obs(7)
  have "run_enabled w [Submit (form (env w)), Complete ?n out]" by simp
  moreover from fresh
  have "requests (complete ?n out ?w') = requests w @ [\<lparr>req_message = FormData_get es ''message''\<rparr>]"
    and "outstanding (complete ?n out ?w') = outstanding w"
    by (simp_all add: obs build_request_eq filter_neq_removeAll)
  moreover have "shown (complete ?n out ?w') =
      (case out of Succeeded rs \<Rightarrow> Some (resp_message rs) | Failed e \<Rightarrow> shown w)"
    and "logged (complete ?n out ?w') =
      logged w @ [[JStr ''message send from browser'', FormData_get es ''message'']] @
      (case out of Succeeded rs \<Rightarrow> [] | Failed e \<Rightarrow> [[JStr (error_diagnostic e)]])"
    using complete_failed_observations [OF i] complete_succeeded_observations [OF i r]
    by (cases out; simp add: obs)+
  ultimately show ?thesis unfolding c by simp
qed

theorem submit_then_outcome_witness:
  "run_enabled demo_world [Submit 0, Complete 0 (Succeeded hello)] \<and>
   shown (run demo_world [Submit 0, Complete 0 (Succeeded hello)]) = Some ''hello'' \<and>
   requests (run demo_world [Submit 0, Complete 0 (Succeeded hello)]) =
     [\<lparr>req_message = JStr ''hello''\<rparr>] \<and>
   outstanding (run demo_world [Submit 0, Complete 0 (Succeeded hello)]) = []"
  using submit_then_outcome [OF demo_pristine demo_reachable,
      of "[(''message'', ''hello'')]" 1 "Succeeded hello"]
  by (simp add: hello_def)

section \<open>Events that do not depend on each other\<close>

text \<open>
  C15. In every reachable state the result of two turns does not depend on their
  order when they are a failed and a successful completion of different calls, a
  submit at the program's form and a successful completion of a call already in
  flight, or user input and any completion: the two orders lead to the same state,
  console, output and calls in flight included.
\<close>

theorem independent_events_commute:
  assumes "pristine p" and "reachable p w"
  shows "(i \<noteq> j \<longrightarrow>
           run w [Complete i (Failed e), Complete j (Succeeded rs)] =
           run w [Complete j (Succeeded rs), Complete i (Failed e)]) \<and>
         (j \<in> set (outstanding w) \<longrightarrow>
           run w [Submit (form (env w)), Complete j (Succeeded rs)] =
           run w [Complete j (Succeeded rs), Submit (form (env w))]) \<and>
         run w [Input r es, Complete j out] = run w [Complete j out, Input r es]"
proof -
  from assms have ok: "world_ok p w" by (rule reachable_world_ok)
  show ?thesis
    using run_complete_failed_succeeded_commute [of i j w e rs]
      run_submit_complete_succeeded_commute [OF ok, of j rs]
      run_input_complete_commute [of w r es j out]
    by blast
qed

theorem independent_events_commute_witness:
  "run demo_world [Submit 0, Submit 0, Complete 0 (Failed internal), Complete 1 (Succeeded hello)] =
   run demo_world [Submit 0, Submit 0, Complete 1 (Succeeded hello), Complete 0 (Failed internal)]"
  using independent_events_commute [OF demo_pristine demo_two_submits_reachable,
      of 0 1 internal hello]
  by simp

section \<open>Callbacks use up the calls in flight\<close>

text \<open>
  C16. A run of completions ends: every completion the browser delivers takes one
  call out of the in-flight list and the callback issues no new call, so a run that
  consists of completions only has exactly as many turns as the in-flight list
  shrinks by, at most as many as there were calls in flight, and sends nothing.
\<close>

theorem completions_use_up_calls:
  assumes "pristine p" and "reachable p w"
    and "run_enabled w es" and "list_all is_completion es"
  shows "length es + length (outstanding (run w es)) = length (outstanding w) \<and>
         length es \<le> length (outstanding w) \<and>
         requests (run w es) = requests w"
proof -
  from assms(1,2) have "world_ok p w" by (rule reachable_world_ok)
  then have "distinct (outstanding w)"
    using world_okD(5) by (auto simp: client_ok_def outstanding_def)
  from run_completions_measure [OF this assms(3,4)] show ?thesis by simp
qed

theorem completions_use_up_calls_witness:
  "outstanding (run demo_world
     [Submit 0, Submit 0, Complete 1 (Succeeded hello), Complete 0 (Failed internal)]) = []"
  using completions_use_up_calls [OF demo_pristine demo_two_submits_reachable,
      of "[Complete 1 (Succeeded hello), Complete 0 (Failed internal)]"]
  by (simp add: js_defs observation_defs demo_defs Let_def)

section \<open>Every call in flight can be resolved\<close>

text \<open>
  C17. No call is stuck: in every reachable state of a page that has not navigated
  away, the browser can resolve all calls in flight, in any order and with any
  outcomes; every one of these turns is enabled when its time comes, and afterwards
  no call is in flight and nothing more has been sent.
\<close>

theorem calls_in_flight_can_be_resolved:
  assumes "pristine p" and "reachable p w" and "\<not> navigated (page w)"
    and "distinct js" and "set js = set (outstanding w)" and "length outs = length js"
  shows "run_enabled w (resolutions_of js outs) \<and>
         outstanding (run w (resolutions_of js outs)) = [] \<and>
         requests (run w (resolutions_of js outs)) = requests w \<and>
         \<not> navigated (page (run w (resolutions_of js outs)))"
proof -
  from assms(5) have "set js \<subseteq> set (outstanding w)" by simp
  from run_resolutions_of [OF assms(4) this assms(3,6)] assms(5) show ?thesis
    by simp
qed

theorem calls_in_flight_can_be_resolved_witness:
  "run_enabled (run demo_world [Submit 0, Submit 0])
     [Complete 1 (Succeeded hello), Complete 0 (Failed internal)] \<and>
   outstanding (run demo_world
     [Submit 0, Submit 0, Complete 1 (Succeeded hello), Complete 0 (Failed internal)]) = []"
  using calls_in_flight_can_be_resolved [OF demo_pristine demo_two_submits_reachable,
      of "[1, 0]" "[Succeeded hello, Failed internal]"]
  by (simp add: js_defs observation_defs demo_defs Let_def)

section \<open>The calls in flight are the program's\<close>

text \<open>
  C18. In every reachable state each call in flight is well formed: it was issued
  with the completion callback of the listener and with empty metadata, its name is
  the position of its request among the requests sent, and it carries that
  request.
\<close>

theorem calls_in_flight_wellformed:
  assumes "pristine p" and "reachable p w"
  shows "list_all (\<lambda>pc. call_callback pc = EchoCallback \<and> call_metadata pc = [] \<and>
           call_id pc < length (requests w) \<and> call_request pc = requests w ! call_id pc)
         (in_flight (client (env w)))"
proof -
  from assms have "client_ok (client (env w))"
    using reachable_world_ok world_okD(5) by blast
  with reachable_calls_plain [OF assms] show ?thesis
    by (auto simp: calls_plain_def client_ok_def requests_def list_all_iff)
qed

theorem calls_in_flight_wellformed_witness:
  "in_flight (client (env (run demo_world [Submit 0, Submit 0]))) =
     [\<lparr>call_id = 0, call_request = \<lparr>req_message = JStr ''hello''\<rparr>, call_metadata = [],
       call_callback = EchoCallback\<rparr>,
      \<lparr>call_id = 1, call_request = \<lparr>req_message = JStr ''hello''\<rparr>, call_metadata = [],
       call_callback = EchoCallback\<rparr>]"
  using calls_in_flight_wellformed [OF demo_pristine demo_two_submits_reachable]
  by (simp add: js_defs observation_defs demo_defs Let_def)

section \<open>Only the output element is written\<close>

text \<open>
  C19. The program writes the content of no element but the one named \<open>response\<close>:
  after any list of events every other element, the form included, has the content
  it had when the document was loaded.
\<close>

theorem only_output_element_written:
  assumes "pristine p" and "load_module p = returns w0" and "ids p ''response'' \<noteq> Some r"
  shows "content (run w0 es) r = innerHTML (heap p r)"
proof -
  from assms(1,2) have ok: "world_ok p w0" by (rule world_ok_load)
  from assms(2,3) have "response (env w0) \<noteq> Some r"
    by (simp add: load_module_returnsD(2))
  from content_run_other [OF ok this, of es] assms(2) show ?thesis
    by (simp add: load_module_observations)
qed

theorem only_output_element_written_witness:
  "content (run demo_world [Submit 0, Complete 0 (Succeeded hello)]) 0 = [] \<and>
   content (run demo_world [Submit 0, Complete 0 (Succeeded hello)]) 1 = ''hello''"
  using only_output_element_written [OF demo_pristine demo_load,
      of 0 "[Submit 0, Complete 0 (Succeeded hello)]"]
  by (simp add: js_defs observation_defs demo_defs Let_def)

section \<open>A submit event at an element that is no form\<close>

text \<open>
  C20. When the element named \<open>form\<close> is not a form and a submit event is dispatched
  at it all the same, the listener faults in \<open>new FormData\<close>: one \<open>TypeError\<close> is left
  uncaught, no request is sent, nothing is logged or shown, and the page stays.
\<close>

theorem listener_faults_on_non_form:
  assumes "pristine p" and "reachable p w" and "entries w = None" and "\<not> navigated (page w)"
  shows "uncaught (page (step w (Submit (form (env w))))) = uncaught (page w) @ [TypeError] \<and>
         requests (step w (Submit (form (env w)))) = requests w \<and>
         outstanding (step w (Submit (form (env w)))) = outstanding w \<and>
         logged (step w (Submit (form (env w)))) = logged w \<and>
         content (step w (Submit (form (env w)))) = content w \<and>
         \<not> navigated (page (step w (Submit (form (env w)))))"
proof -
  from assms(1,2) have ok: "world_ok p w" by (rule reachable_world_ok)
  from assms(4) fire_submit_not_form_turn [OF ok assms(3)] show ?thesis
    by (simp add: step_def)
qed

theorem listener_faults_on_non_form_witness:
  "uncaught (page (step div_form_world (Submit 1))) = [TypeError] \<and>
   requests (step div_form_world (Submit 1)) = [] \<and>
   logged (step div_form_world (Submit 1)) = []"
  using listener_faults_on_non_form [OF div_form_pristine div_form_reachable]
  by simp

section \<open>The callback on every combination of its arguments\<close>

text \<open>
  C21. The callback tests its first argument only: called with an error and a
  response it logs the diagnostic and ignores the response; called with neither it
  faults, reading \<open>getMessage\<close> of nothing. It faults in no other case than a missing
  response or a missing output element, and when it returns it has not touched the
  bindings.
\<close>

theorem callback_argument_combinations:
  "echo_callback (Some e) (Some rs) w = returns (log_error e w) \<and>
   shown (log_error e w) = shown w \<and>
   logged (log_error e w) = logged w @ [[JStr (error_diagnostic e)]] \<and>
   echo_callback None None w = throws TypeError \<and>
   (echo_callback err resp w = throws TypeError \<longleftrightarrow>
      err = None \<and> (resp = None \<or> response (env w) = None)) \<and>
   (\<forall>w'. echo_callback err resp w = returns w' \<longrightarrow> env w' = env w)"
  by (auto simp: echo_callback_throws_iff dest: echo_callback_env)

theorem callback_argument_combinations_witness:
  "echo_callback (Some internal) (Some hello) demo_world = returns (log_error internal demo_world) \<and>
   logged (log_error internal demo_world) = [[JStr (error_diagnostic internal)]] \<and>
   echo_callback None None demo_world = throws TypeError \<and>
   (\<exists>w'. echo_callback None (Some hello) demo_world = returns w' \<and> env w' = env demo_world)"
  using callback_argument_combinations [of internal hello demo_world None "Some hello"]
  by (auto simp: showResponse_def)

section \<open>Only the field named message leaves the form\<close>

text \<open>
  C22. What a submit sends and logs depends on no control of the form but those
  named \<open>message\<close>: when the user fills the form in two ways that agree on these
  controls, the submit sends the same request and writes the same console line,
  whatever the other controls hold.
\<close>

theorem only_message_field_is_sent:
  assumes "pristine p" and "reachable p w" and "enabled w (Submit (form (env w)))"
    and "filter (\<lambda>kv. fst kv = ''message'') es = filter (\<lambda>kv. fst kv = ''message'') es'"
  shows "requests (run w [Input (form (env w)) es, Submit (form (env w))]) =
         requests (run w [Input (form (env w)) es', Submit (form (env w))]) \<and>
         logged (run w [Input (form (env w)) es, Submit (form (env w))]) =
         logged (run w [Input (form (env w)) es', Submit (form (env w))])"
proof -
  from assms(1,2) have ok: "world_ok p w" by (rule reachable_world_ok)
  from assms(3) have en: "entries w \<noteq> None" "\<not> navigated (page w)"
    by (simp_all add: entries_def)
  from assms(4) have "FormData_get es ''message'' = FormData_get es' ''message''"
    by (metis FormData_get_filter)
  with input_then_submit [OF ok en] show ?thesis by simp
qed

theorem only_message_field_is_sent_witness:
  "requests (run demo_world
     [Input 0 [(''user'', ''alice''), (''message'', ''hi'')], Submit 0]) =
   [\<lparr>req_message = JStr ''hi''\<rparr>] \<and>
   requests (run demo_world
     [Input 0 [(''message'', ''hi''), (''password'', ''secret'')], Submit 0]) =
   [\<lparr>req_message = JStr ''hi''\<rparr>]"
  using only_message_field_is_sent [OF demo_pristine demo_reachable,
      of "[(''user'', ''alice''), (''message'', ''hi'')]"
         "[(''message'', ''hi''), (''password'', ''secret'')]"]
  by (simp add: js_defs observation_defs demo_defs Let_def)

section \<open>Every completion answers a submit\<close>

text \<open>
  C23. In every trace of the loaded program a completion of call \<open>i\<close> comes after the
  submit that issued it: more than \<open>i\<close> submits at the form precede it, the call is
  resolved nowhere else in the trace, before or after, and the request it answers
  carries the message the form held at that submit, which is still the request of
  that name at the end of the trace.
\<close>

theorem completion_follows_submit:
  assumes "pristine p" and "load_module p = returns w0" and "entries w0 = Some es0"
    and "trace w0 (es1 @ Complete i out # es2) w"
  shows "i < submits (form_events p es1) \<and>
         i \<notin> set (completed es1) \<and> i \<notin> set (completed es2) \<and>
         req_message (requests w ! i) = submitted es0 (form_events p es1) ! i"
proof -
  let ?w1 = "run w0 es1"
  from assms(1,2) have ok: "world_ok p w0" by (rule world_ok_load)
  note acc0 = accounted_load [OF assms(2)]
  from assms(4) have en1: "run_enabled w0 es1" and i: "i \<in> set (outstanding ?w1)"
    and w: "w = run ?w1 (Complete i out # es2)"
    by (simp_all add: trace_iff_run)
  then have tr1: "trace w0 es1 ?w1" by (simp add: trace_iff_run)
  from accounted_trace [OF ok acc0 assms(4)]
  have once: "i \<notin> set (completed es1)" "i \<notin> set (completed es2)"
    by (auto simp: accounted_def)
  from accounted_trace [OF ok acc0 tr1] i have less: "i < length (requests ?w1)"
    by (auto simp: accounted_def)
  from run_requests [OF ok en1 assms(3)] assms(2)
  have rq: "map req_message (requests ?w1) = submitted es0 (form_events p es1)"
    by (simp add: load_module_observations)
  from rq less have "i < submits (form_events p es1)"
    by (metis length_map length_submitted)
  moreover from rq less
  have "req_message (requests ?w1 ! i) = submitted es0 (form_events p es1) ! i"
    by (metis nth_map)
  moreover from run_prefix [OF world_ok_run [OF ok], of es1 "Complete i out # es2"] less
  have "requests w ! i = requests ?w1 ! i"
    unfolding w by (simp add: prefix_nth)
  ultimately show ?thesis using once by simp
qed

theorem completion_follows_submit_witness:
  "req_message (requests (run demo_world
     [Submit 0, Input 0 [(''message'', ''again'')], Submit 0, Complete 1 (Succeeded hello)]) ! 1) =
   JStr ''again''"
  using completion_follows_submit [OF demo_pristine demo_load,
      of "[(''message'', ''hello'')]"
         "[Submit 0, Input 0 [(''message'', ''again'')], Submit 0]" 1 "Succeeded hello" "[]"
         "run demo_world
            [Submit 0, Input 0 [(''message'', ''again'')], Submit 0, Complete 1 (Succeeded hello)]"]
  by (simp add: trace_iff_run js_defs observation_defs demo_defs Let_def)

section \<open>With a service that echoes, the page shows what was submitted\<close>

text \<open>
  C24. When every successful completion of a trace carries the message of the
  request it answers, as an echo service does, the output element shows at the end
  of the trace either the text it had when the document was loaded or a string that
  the field \<open>message\<close> of the form held at one of the submits: nothing else can
  appear on the page.
\<close>

theorem echo_shows_what_was_submitted:
  assumes "pristine p" and "load_module p = returns w0" and "trace w0 es w"
    and "entries w0 = Some es0" and "ids p ''response'' = Some r"
    and "\<forall>e \<in> set es. echoes (requests w) e"
  shows "\<exists>c. shown w = Some c \<and>
           (c = innerHTML (heap p r) \<or> JStr c \<in> set (submitted es0 (form_events p es)))"
proof -
  from assms(1,2) have ok: "world_ok p w0" by (rule world_ok_load)
  from assms(3) have en: "run_enabled w0 es" and w: "w = run w0 es"
    by (simp_all add: trace_iff_run)
  from assms(2,5) have "shown w0 = Some (innerHTML (heap p r))"
    by (simp add: shown_def load_module_returnsD(2) load_module_observations(4))
  with run_shown [OF ok en]
  have s: "shown w =
      Some (case last_Some (map completion_text es) of None \<Rightarrow> innerHTML (heap p r) | Some m \<Rightarrow> m)"
    by (simp add: w)
  from run_requests [OF ok en assms(4)] assms(2)
  have rq: "req_message ` set (requests w) = set (submitted es0 (form_events p es))"
    by (simp add: w load_module_observations flip: set_map)
  show ?thesis
  proof (cases "last_Some (map completion_text es)")
    case None
    with s show ?thesis by simp
  next
    case (Some m)
    from echoed_text_was_sent [OF assms(6) Some] s show ?thesis
      by (simp add: Some rq)
  qed
qed

theorem echo_shows_what_was_submitted_witness:
  "shown (run demo_world [Submit 0, Complete 0 (Succeeded hello)]) = Some ''hello'' \<and>
   JStr ''hello'' \<in> set (submitted [(''message'', ''hello'')]
     (form_events demo_page [Submit 0, Complete 0 (Succeeded hello)]))"
  using echo_shows_what_was_submitted [OF demo_pristine demo_load,
      of "[Submit 0, Complete 0 (Succeeded hello)]"
         "run demo_world [Submit 0, Complete 0 (Succeeded hello)]"
         "[(''message'', ''hello'')]" 1]
  by (simp add: trace_iff_run js_defs observation_defs demo_defs Let_def)

end
